theory Spec2Isabelle
  imports Complex_Main "HOL-Library.Sublist" "HOL-Library.Char_ord" "HOL-Library.List_Lexorder"
begin

section \<open>Strings as the commands use them\<close>

text \<open>
  JavaScript strings are modelled as \<^typ>\<open>string\<close>. Only the operations the three
  commands apply to command output are needed: \<open>trim\<close>, \<open>split('\n')\<close>,
  \<open>join\<close>, \<open>includes\<close>, and the truthiness of a string (non-empty).
  \<open>trim\<close> removes the ASCII white space characters.
\<close>

definition newline :: char where
  "newline = CHR 0x0A"

definition is_ws :: "char \<Rightarrow> bool" where
  "is_ws c = (c \<in> set [CHR 0x09, CHR 0x0A, CHR 0x0B, CHR 0x0C, CHR 0x0D, CHR 0x20])"

definition trim :: "string \<Rightarrow> string" where
  "trim s = rev (dropWhile is_ws (rev (dropWhile is_ws s)))"

fun split_on :: "char \<Rightarrow> string \<Rightarrow> string list" where
  "split_on c [] = [[]]"
| "split_on c (x # xs) =
     (if x = c then [] # split_on c xs
      else (case split_on c xs of [] \<Rightarrow> [[x]] | y # ys \<Rightarrow> (x # y) # ys))"

fun join :: "string \<Rightarrow> string list \<Rightarrow> string" where
  "join sep [] = []"
| "join sep [x] = x"
| "join sep (x # y # ys) = x @ sep @ join sep (y # ys)"

fun str_includes :: "string \<Rightarrow> string \<Rightarrow> bool" where
  "str_includes [] t = (t = [])"
| "str_includes (c # s) t = (prefix t (c # s) \<or> str_includes s t)"

text \<open>\<open>xs.filter(Boolean)\<close> on a list of strings keeps the non-empty ones.\<close>

definition filter_Boolean :: "string list \<Rightarrow> string list" where
  "filter_Boolean xs = filter (\<lambda>s. s \<noteq> []) xs"

text \<open>\<open>a || d\<close> for an optional string: the default replaces undefined and the empty string.\<close>

definition or_default :: "string option \<Rightarrow> string \<Rightarrow> string" where
  "or_default a d = (case a of None \<Rightarrow> d | Some s \<Rightarrow> if s = [] then d else s)"

text \<open>A number inside a template literal: its decimal digits.\<close>

definition decimal_digit :: "nat \<Rightarrow> char" where
  "decimal_digit n = ''0123456789'' ! (n mod 10)"

fun show_nat :: "nat \<Rightarrow> string" where
  "show_nat n = (if 10 \<le> n then show_nat (n div 10) else []) @ [decimal_digit n]"

definition show_int :: "int \<Rightarrow> string" where
  "show_int i = (if 0 \<le> i then show_nat (nat i) else CHR ''-'' # show_nat (nat (- i)))"

section \<open>Package manifests\<close>

text \<open>
  A parsed JSON value. An object is the list of its members; \<open>JSON.parse\<close> keeps one
  value for each key, so the keys of an object are pairwise distinct.
\<close>

datatype json =
    JNull
  | JBool bool
  | JNum rat
  | JStr string
  | JArr "json list"
  | JObj "(string \<times> json) list"

text \<open>\<open>obj[key]\<close>: the member of that name, if any.\<close>

definition get_member :: "(string \<times> json) list \<Rightarrow> string \<Rightarrow> json option" where
  "get_member kvs k = map_of kvs k"

text \<open>\<open>const { version, ...rest } = pkg\<close>: every member but \<open>version\<close>.\<close>

definition without_version :: "(string \<times> json) list \<Rightarrow> (string \<times> json) list" where
  "without_version kvs = filter (\<lambda>kv. fst kv \<noteq> ''version'') kvs"

section \<open>Errors, external calls and the trace of a run\<close>

text \<open>
  A thrown JavaScript error carries a message; the errors of the command executor also
  carry the captured standard output and standard error. \<open>new Error(m)\<close> is
  \<open>Error m [] []\<close>.
\<close>

datatype error = Error (message: string) (err_stdout: string) (err_stderr: string)

definition new_Error :: "string \<Rightarrow> error" where
  "new_Error m = Error m [] []"

record pull_request =
  pr_number :: nat
  html_url :: string

record sync_status =
  inSync :: bool
  sync_error :: "string option"
  localSha :: "string option"
  remoteSha :: "string option"

record sync_result =
  success :: bool
  conflictResolutionRequired :: bool
  sr_error :: "string option"

record agentic_result =
  ar_success :: bool
  requiresManualIntervention :: bool

record release_summary =
  title :: string
  body :: string

text \<open>
  Every operation a command asks of a collaborator (the command executor of git-tools,
  the GitHub client, the registry query, the storage, the language-model service, the
  operator) is one constructor; the comment gives the call of the source.
\<close>

datatype call =
    Run string                                   \<comment> \<open>\<open>run(cmd)\<close>: a shell command line\<close>
  | RunSecure string "string list"               \<comment> \<open>\<open>runSecure(cmd, argv)\<close>\<close>
  | GetCurrentBranchName                         \<comment> \<open>\<open>GitHub.getCurrentBranchName()\<close>\<close>
  | GetCurrentBranch                             \<comment> \<open>\<open>getCurrentBranch()\<close> of git-tools\<close>
  | GetDefaultFromRef bool string
  | LocalBranchExists string
  | RemoteBranchExists string
  | IsBranchInSyncWithRemote string
  | SafeSyncBranchWithRemote string
  | CheckIfTagExists string
  | GetNpmPublishedVersion "json option"
  | GetTagInfo string
  | CalculateBranchDependentVersion "json option" string string
  | ConfirmVersionInteractively "json option" string "string option"
  | FindOpenPullRequestByHeadRef string
  | CreatePullRequest string string string string
  | WaitForPullRequestChecks nat nat bool
  | MergePullRequest nat string bool
  | CreateRelease string string string
  | CloseMilestoneForVersion string
  | GetWorkflowsTriggeredByRelease
  | WaitForReleaseWorkflows string nat "string list option" bool
  | GetMilestoneIssuesForRelease "string list" nat
  | HasStagedChanges                             \<comment> \<open>\<open>Diff.hasStagedChanges()\<close>\<close>
  | CommitCommit                                 \<comment> \<open>\<open>Commit.commit(runConfig)\<close>\<close>
  | UpdatesUpdates string                        \<comment> \<open>\<open>Updates.updates(config)\<close> of commands-tree\<close>
  | RunAgenticPublish string string
  | RunAgenticRelease string string
  | GenerateReflectionReport
  | LogCreate string string                      \<comment> \<open>\<open>Log.create({from, to, limit})\<close>\<close>
  | DiffCreate string string                     \<comment> \<open>\<open>Diff.create({from, to, ..})\<close>\<close>
  | DiffGet
  | LogGet
  | InteractiveReleaseFeedback string string
  | RequireTTY
  | StorageExists string
  | StorageReadFile string
  | StorageWriteFile string string
  | StorageEnsureDirectory string
  | FsAccess string
  | FsReadFile string
  | FsUnlink string

text \<open>
  A run leaves a trace of events: the calls it made, what it printed on standard output
  with \<open>console.log\<close>, the timers it waited on, the commands
  \<open>runWithDryRunSupport\<close> did not execute because of dry-run mode, and the advisory
  repository lock taken and released by \<open>runGitWithLock\<close>. Calls to the logger are
  not events: the logger is the diagnostic channel, apart from standard output.
\<close>

datatype event =
    Call call
  | Stdout string
  | Sleep nat
  | WouldRun string
  | LockAcquire string
  | LockRelease string

text \<open>
  A computation reads the trace so far and yields the events it adds and either the
  error it throws or its value.
\<close>

type_synonym 'a io = "event list \<Rightarrow> event list \<times> (error + 'a)"

definition io_return :: "'a \<Rightarrow> 'a io" where
  "io_return x = (\<lambda>h. ([], Inr x))"

definition io_throw :: "error \<Rightarrow> 'a io" where
  "io_throw e = (\<lambda>h. ([], Inl e))"

definition io_bind :: "'a io \<Rightarrow> ('a \<Rightarrow> 'b io) \<Rightarrow> 'b io" where
  "io_bind m f = (\<lambda>h.
     case m h of
       (t, Inl e) \<Rightarrow> (t, Inl e)
     | (t, Inr x) \<Rightarrow> (case f x (h @ t) of (t', r) \<Rightarrow> (t @ t', r)))"

definition io_seq :: "'a io \<Rightarrow> 'b io \<Rightarrow> 'b io" where
  "io_seq m k = io_bind m (\<lambda>_. k)"

text \<open>\<open>try { m } catch (e) { handler e }\<close>\<close>

definition io_catch :: "'a io \<Rightarrow> (error \<Rightarrow> 'a io) \<Rightarrow> 'a io" where
  "io_catch m handler = (\<lambda>h.
     case m h of
       (t, Inl e) \<Rightarrow> (case handler e (h @ t) of (t', r) \<Rightarrow> (t @ t', r))
     | (t, Inr x) \<Rightarrow> (t, Inr x))"

definition emit :: "event \<Rightarrow> unit io" where
  "emit ev = (\<lambda>h. ([ev], Inr ()))"

text \<open>
  An external call adds its event and yields what the collaborator answers, which may
  depend on everything that happened before.
\<close>

definition ask :: "(event list \<Rightarrow> call \<Rightarrow> error + 'a) \<Rightarrow> call \<Rightarrow> 'a io" where
  "ask oracle c = (\<lambda>h. ([Call c], oracle h c))"

text \<open>A call whose value is not used.\<close>

definition discard :: "'a io \<Rightarrow> unit io" where
  "discard m = io_bind m (\<lambda>_. io_return ())"

text \<open>\<open>m.then(() => true).catch(() => false)\<close>\<close>

definition succeeds :: "'a io \<Rightarrow> bool io" where
  "succeeds m = io_catch (io_bind m (\<lambda>_. io_return True)) (\<lambda>_. io_return False)"

text \<open>
  \<open>runGitWithLock(cwd, fn, name)\<close> of the core package: the repository lock is held
  while \<open>fn\<close> runs and released on both exits.
\<close>

definition runGitWithLock :: "string \<Rightarrow> 'a io \<Rightarrow> 'a io" where
  "runGitWithLock name m = (\<lambda>h.
     case m (h @ [LockAcquire name]) of
       (t, r) \<Rightarrow> (LockAcquire name # t @ [LockRelease name], r))"

text \<open>
  \<open>sortObjectKeys\<close>: arrays are mapped element by element, the members of an object are
  rebuilt in the order of \<open>Object.keys(value).sort()\<close> with their values sorted in turn,
  every other value is returned as it is.
\<close>

fun sortObjectKeys :: "json \<Rightarrow> json" where
  "sortObjectKeys (JArr xs) = JArr (map sortObjectKeys xs)"
| "sortObjectKeys (JObj kvs) =
     JObj (sort_key fst (map (\<lambda>kv. (fst kv, sortObjectKeys (snd kv))) kvs))"
| "sortObjectKeys v = v"

section \<open>Configuration\<close>

text \<open>
  The fields of \<open>Config\<close> the three commands read. The options of \<open>publish\<close>,
  \<open>release\<close> and \<open>development\<close> carry the prefixes \<open>p_\<close>, \<open>r_\<close> and \<open>d_\<close>;
  an absent option object is the record with every option absent. A flag that is only
  tested for truth is a \<^typ>\<open>bool\<close>; one that is compared with \<open>false\<close> keeps its
  three values.
\<close>

record version_config =
  vc_tag :: "string option"
  vc_incrementLevel :: "string option"

record branch_config =
  bc_targetBranch :: "string option"
  bc_version :: "version_config option"

record config =
  dryRun :: bool
  branches :: "(string \<Rightarrow> branch_config option) option"
  outputDirectory :: "string option"
  p_targetBranch :: "string option"
  p_syncTarget :: bool
  p_updateDeps :: "string option"
  p_dependencyUpdatePatterns :: "string list option"
  p_skipPrePublishMerge :: "bool option"
  p_targetVersion :: "string option"
  p_skipAlreadyPublished :: bool
  p_forceRepublish :: bool
  p_interactive :: bool
  p_from :: "string option"
  p_fromMain :: bool
  p_checksTimeout :: "nat option"
  p_sendit :: bool
  p_skipUserConfirmation :: bool
  p_mergeMethod :: "string option"
  p_noMilestones :: bool
  p_waitForReleaseWorkflows :: "bool option"
  p_releaseWorkflowsTimeout :: "nat option"
  p_releaseWorkflowNames :: "string list option"
  p_requiredEnvVars :: "string list option"
  p_agenticPublish :: bool
  r_currentBranch :: "string option"
  r_from :: "string option"
  r_to :: "string option"
  r_fromMain :: bool
  r_interactive :: bool
  r_noMilestones :: bool
  r_contextFiles :: "string list option"
  r_selfReflection :: bool
  d_targetVersion :: "string option"
  d_createRetroactiveTags :: bool
  d_workingTagPrefix :: "string option"
  d_tagWorkingBranch :: "bool option"

text \<open>\<open>n || d\<close> for an optional number: the default replaces undefined and zero.\<close>

definition num_or_default :: "nat option \<Rightarrow> nat \<Rightarrow> nat" where
  "num_or_default a d = (case a of None \<Rightarrow> d | Some n \<Rightarrow> if n = 0 then d else n)"

text \<open>The truthiness of a JSON value that may be undefined.\<close>

fun truthy :: "json option \<Rightarrow> bool" where
  "truthy None = False"
| "truthy (Some JNull) = False"
| "truthy (Some (JBool b)) = b"
| "truthy (Some (JNum n)) = (n \<noteq> 0)"
| "truthy (Some (JStr s)) = (s \<noteq> [])"
| "truthy (Some (JArr xs)) = True"
| "truthy (Some (JObj kvs)) = True"

text \<open>\<open>value.key\<close>: a member of an object; reading a member of \<open>null\<close> throws.\<close>

definition TypeError :: error where
  "TypeError = new_Error ''TypeError''"

fun property :: "json \<Rightarrow> string \<Rightarrow> error + json option" where
  "property JNull k = Inl TypeError"
| "property (JObj kvs) k = Inr (get_member kvs k)"
| "property v k = Inr None"

text \<open>The regular expressions of the source, by name.\<close>

datatype pattern =
    EnvVarReference      \<comment> \<open>\<open>/\$\{([^}]+)\}|\$([A-Z_][A-Z0-9_]*)/g\<close>\<close>
  | DevVersionBump       \<comment> \<open>\<open>/\b\d+\.\d+\.\d+-dev\.0\b/\<close>\<close>
  | DevVersionCapture    \<comment> \<open>\<open>/(\d+\.\d+\.\d+)-dev\.0/\<close>\<close>
  | PlainVersion         \<comment> \<open>\<open>/^\d+\.\d+\.\d+$/\<close>\<close>

section \<open>The collaborators\<close>

text \<open>
  The world answers the calls. Each answer is either the error the call throws or its
  value, and may depend on the trace so far. The commands use the packages' pure helpers
  as well; they are parameters of the model:
  \<^item> \<open>parsePackageJson s ctx\<close> is \<open>validatePackageJson(safeJsonParse(s, ctx), ctx)\<close>,
    which throws on a malformed manifest;
  \<^item> \<open>JSON_stringify\<close> is \<open>JSON.stringify(v)\<close> and \<open>JSON_pretty\<close> is
    \<open>JSON.stringify(v, null, 2)\<close>;
  \<^item> \<open>to_String\<close> is the conversion a template literal applies to a value that may be
    undefined;
  \<^item> \<open>regex_test p s\<close> and \<open>regex_match p s\<close> are \<open>p.test(s)\<close> and \<open>s.match(p)\<close>
    for the regular expression \<open>p\<close> (\<open>regex_match\<close> yields the matches of
    a global expression, and the groups of a match otherwise);
  \<^item> \<open>process_env\<close> is \<open>process.env\<close>, \<open>timestamp\<close> the time stamp the file-name
    helpers of the core package put into a name, and the remaining fields are the
    constants of the core package (\<open>KODRDRIV_DEFAULTS\<close> among them).
  File paths are relative to the working directory of the process.
\<close>

record world =
  w_text :: "event list \<Rightarrow> call \<Rightarrow> error + string"
  w_bool :: "event list \<Rightarrow> call \<Rightarrow> error + bool"
  w_opt :: "event list \<Rightarrow> call \<Rightarrow> error + string option"
  w_list :: "event list \<Rightarrow> call \<Rightarrow> error + string list"
  w_pr :: "event list \<Rightarrow> call \<Rightarrow> error + pull_request option"
  w_sync_status :: "event list \<Rightarrow> call \<Rightarrow> error + sync_status"
  w_sync_result :: "event list \<Rightarrow> call \<Rightarrow> error + sync_result"
  w_agentic :: "event list \<Rightarrow> call \<Rightarrow> error + agentic_result"
  w_version :: "event list \<Rightarrow> call \<Rightarrow> error + string \<times> string"
  w_summary :: "event list \<Rightarrow> call \<Rightarrow> error + release_summary"
  parsePackageJson :: "string \<Rightarrow> string \<Rightarrow> error + (string \<times> json) list"
  safeJsonParse :: "string \<Rightarrow> string \<Rightarrow> error + json"
  JSON_parse :: "string \<Rightarrow> error + json"
  JSON_stringify :: "json \<Rightarrow> string"
  JSON_pretty :: "json \<Rightarrow> string"
  to_String :: "json option \<Rightarrow> string"
  calculateTargetVersion :: "json option \<Rightarrow> string \<Rightarrow> error + string"
  incrementVersion :: "string \<Rightarrow> json option \<Rightarrow> error + string"
  validateGitRef :: "string \<Rightarrow> bool"
  filterContent :: "string \<Rightarrow> string"
  findDevelopmentBranch :: "(string \<Rightarrow> branch_config option) \<Rightarrow> string option"
  regex_test :: "pattern \<Rightarrow> string \<Rightarrow> bool"
  regex_match :: "pattern \<Rightarrow> string \<Rightarrow> string list option"
  process_env :: "string \<Rightarrow> string option"
  timestamp :: string
  DEFAULT_OUTPUT_DIRECTORY :: string
  DEFAULT_TO_COMMIT_ALIAS :: string
  default_checksTimeout :: nat
  default_releaseWorkflowsTimeout :: nat
  default_branches :: "(string \<Rightarrow> branch_config option) option"

text \<open>A pure helper that throws, used in the middle of a computation.\<close>

definition lift :: "error + 'a \<Rightarrow> 'a io" where
  "lift r = (\<lambda>h. ([], r))"

definition run :: "world \<Rightarrow> string \<Rightarrow> string io" where
  "run w cmd = ask (w_text w) (Run cmd)"

definition runSecure :: "world \<Rightarrow> string \<Rightarrow> string list \<Rightarrow> string io" where
  "runSecure w cmd argv = ask (w_text w) (RunSecure cmd argv)"

text \<open>
  \<open>runWithDryRunSupport(cmd, isDryRun)\<close> of git-tools: in dry-run mode the command is
  reported and not executed, and the call yields empty output; otherwise it is \<open>run\<close>.
\<close>

definition runWithDryRunSupport :: "world \<Rightarrow> string \<Rightarrow> bool \<Rightarrow> string io" where
  "runWithDryRunSupport w cmd isDryRun =
     (if isDryRun then io_seq (emit (WouldRun cmd)) (io_return []) else run w cmd)"

section \<open>The release-necessity evaluator\<close>

record necessity =
  necessary :: bool
  reason :: string

definition bullet :: string where
  "bullet = [CHR 0xE2, CHR 0x80, CHR 0xA2]"

text \<open>The manifest comparison inside the evaluator's second \<open>try\<close> block.\<close>

definition comparePackageJson :: "world \<Rightarrow> string \<Rightarrow> string \<Rightarrow> necessity io" where
  "comparePackageJson w targetBranch currentBranch =
     io_bind (runSecure w ''git'' [''show'', targetBranch @ '':package.json'']) (\<lambda>basePkgStdout.
     io_bind (runSecure w ''git'' [''show'', currentBranch @ '':package.json'']) (\<lambda>headPkgStdout.
     io_bind (lift (parsePackageJson w basePkgStdout (targetBranch @ '':package.json''))) (\<lambda>basePkg.
     io_bind (lift (parsePackageJson w headPkgStdout (currentBranch @ '':package.json''))) (\<lambda>headPkg.
       let baseSorted = sortObjectKeys (JObj (without_version basePkg));
           headSorted = sortObjectKeys (JObj (without_version headPkg));
           equalExceptVersion = (JSON_stringify w baseSorted = JSON_stringify w headSorted)
       in if equalExceptVersion then
            io_return \<lparr>necessary = False,
              reason = ''No meaningful changes detected:'' @ [newline] @ ''   '' @ bullet
                @ '' Current version: '' @ to_String w (get_member headPkg ''version'')
                @ [newline] @ ''   '' @ bullet @ '' Target branch version: ''
                @ to_String w (get_member basePkg ''version'')
                @ [newline] @ ''   '' @ bullet @ '' Only package.json version field differs''
                @ [newline, newline]
                @ ''   To force republish: Add meaningful code changes or use --force (not yet implemented)''\<rparr>
          else io_return \<lparr>necessary = True, reason = ''package.json changes beyond version field''\<rparr>))))"

definition changedFiles_of :: "string \<Rightarrow> string list" where
  "changedFiles_of namesStdout = filter_Boolean (map trim (split_on newline namesStdout))"

definition isReleaseNecessaryComparedToTarget :: "world \<Rightarrow> string \<Rightarrow> bool \<Rightarrow> necessity io" where
  "isReleaseNecessaryComparedToTarget w targetBranch isDryRun =
     io_bind (ask (w_text w) GetCurrentBranchName) (\<lambda>currentBranch.
     io_bind (succeeds (runSecure w ''git'' [''rev-parse'', ''--verify'', targetBranch])) (\<lambda>targetExists.
       if \<not> targetExists then
         io_return \<lparr>necessary = True,
           reason = ''Target branch '' @ [CHR 0x27] @ targetBranch @ [CHR 0x27]
             @ '' does not exist; first release to this branch''\<rparr>
       else
         io_bind (runSecure w ''git'' [''diff'', ''--name-only'', targetBranch @ ''..'' @ currentBranch])
           (\<lambda>namesStdout.
           let changedFiles = changedFiles_of namesStdout in
           if length changedFiles = 0 then
             io_return \<lparr>necessary = True,
               reason = ''No detectable changes via diff; proceeding conservatively''\<rparr>
           else
             let nonVersionFiles = filter (\<lambda>f. f \<noteq> ''package.json'') changedFiles in
             if length nonVersionFiles > 0 then
               io_return \<lparr>necessary = True,
                 reason = ''Changed files beyond version bump: '' @ join '', '' nonVersionFiles\<rparr>
             else
               io_catch (comparePackageJson w targetBranch currentBranch)
                 (\<lambda>error. io_return \<lparr>necessary = True,
                    reason = ''Could not compare package.json safely''\<rparr>))))"

section \<open>The publish command\<close>

subsection \<open>Prechecks\<close>

text \<open>\<open>match.replace(/\$\{|\}|\$/g, '')\<close>\<close>

fun strip_env_syntax :: "string \<Rightarrow> string" where
  "strip_env_syntax [] = []"
| "strip_env_syntax [c] = (if c = CHR ''$'' \<or> c = CHR ''}'' then [] else [c])"
| "strip_env_syntax (c # d # s) =
     (if c = CHR ''$'' \<and> d = CHR ''{'' then strip_env_syntax s
      else if c = CHR ''$'' \<or> c = CHR ''}'' then strip_env_syntax (d # s)
      else c # strip_env_syntax (d # s))"

definition collect_env_vars :: "string list \<Rightarrow> string list" where
  "collect_env_vars envVarMatches =
     foldl (\<lambda>envVars m.
              let varName = strip_env_syntax m
              in if varName \<noteq> [] \<and> varName \<notin> set envVars then envVars @ [varName] else envVars)
       [] envVarMatches"

definition scanNpmrcForEnvVars :: "world \<Rightarrow> string list io" where
  "scanNpmrcForEnvVars w =
     io_bind (ask (w_bool w) (StorageExists ''.npmrc'')) (\<lambda>exists.
       if exists then
         io_catch
           (io_bind (ask (w_text w) (StorageReadFile ''.npmrc'')) (\<lambda>npmrcContent.
              case regex_match w EnvVarReference npmrcContent of
                None \<Rightarrow> io_return []
              | Some envVarMatches \<Rightarrow> io_return (collect_env_vars envVarMatches)))
           (\<lambda>error. io_return [])
       else io_return [])"

definition validateEnvironmentVariables :: "world \<Rightarrow> string list \<Rightarrow> bool \<Rightarrow> unit io" where
  "validateEnvironmentVariables w requiredEnvVars isDryRun =
     (let missingEnvVars =
            filter (\<lambda>envVar. case process_env w envVar of None \<Rightarrow> True | Some v \<Rightarrow> v = [])
              requiredEnvVars
      in if length missingEnvVars > 0 then
           (if isDryRun then io_return ()
            else io_throw (new_Error (''Missing required environment variables: ''
                   @ join '', '' missingEnvVars
                   @ ''. Please set these environment variables before running publish.'')))
         else io_return ())"

text \<open>\<open>error.message || error.toString()\<close>\<close>

definition originalMessage :: "error \<Rightarrow> string" where
  "originalMessage e = (if message e \<noteq> [] then message e else ''Error'')"

definition quoted :: "string \<Rightarrow> string" where
  "quoted s = [CHR 0x27] @ s @ [CHR 0x27]"

text \<open>
  The agentic recovery of an out-of-sync target branch. The value \<open>True\<close> stands for the
  \<open>return\<close> that leaves \<open>runPrechecks\<close> at once.
\<close>

definition agenticRecovery :: "world \<Rightarrow> string \<Rightarrow> bool io" where
  "agenticRecovery w effectiveTargetBranch =
     io_catch
       (io_bind (ask (w_text w) GetCurrentBranchName) (\<lambda>currentBranch.
        io_bind (ask (w_agentic w) (RunAgenticPublish effectiveTargetBranch currentBranch))
          (\<lambda>agenticResult.
        io_bind
          (if ar_success agenticResult then
             io_bind (ask (w_sync_status w) (IsBranchInSyncWithRemote effectiveTargetBranch))
               (\<lambda>reSyncStatus. io_return (inSync reSyncStatus))
           else io_return False)
          (\<lambda>verified.
             if verified then io_return True
             else if requiresManualIntervention agenticResult then
               io_throw (new_Error (''Target branch '' @ quoted effectiveTargetBranch
                 @ '' requires manual intervention. Please see the steps above.''))
             else
               io_throw (new_Error
                 ''Agentic publish could not resolve the issue automatically. Please see the analysis above.'')))))
       (\<lambda>agenticError. io_return False)"

definition precheckBranchSync :: "world \<Rightarrow> config \<Rightarrow> string \<Rightarrow> bool io" where
  "precheckBranchSync w runConfig effectiveTargetBranch =
     io_bind (ask (w_bool w) (LocalBranchExists effectiveTargetBranch)) (\<lambda>targetBranchExists.
       if targetBranchExists then
         io_bind (ask (w_sync_status w) (IsBranchInSyncWithRemote effectiveTargetBranch))
           (\<lambda>syncStatus.
             if \<not> inSync syncStatus then
               io_bind
                 (if p_agenticPublish runConfig then agenticRecovery w effectiveTargetBranch
                  else io_return False)
                 (\<lambda>recovered.
                    if recovered then io_return True
                    else io_throw (new_Error (''Target branch '' @ quoted effectiveTargetBranch
                      @ '' is not in sync with remote. Please sync the branch before running publish.'')))
             else io_return False)
       else io_return False)"

definition has_prepublishOnly :: "(string \<times> json) list \<Rightarrow> bool" where
  "has_prepublishOnly packageJson =
     (case get_member packageJson ''scripts'' of
        Some (JObj scripts) \<Rightarrow> truthy (get_member scripts ''prepublishOnly'')
      | _ \<Rightarrow> False)"

definition precheckPackageJson :: "world \<Rightarrow> bool \<Rightarrow> unit io" where
  "precheckPackageJson w isDryRun =
     io_bind (ask (w_bool w) (StorageExists ''package.json'')) (\<lambda>exists.
       if \<not> exists then
         (if \<not> isDryRun then io_throw (new_Error ''package.json not found in current directory.'')
          else io_return ())
       else
         io_bind
           (io_catch
              (io_bind (ask (w_text w) (StorageReadFile ''package.json'')) (\<lambda>packageJsonContents.
               io_bind (lift (parsePackageJson w packageJsonContents ''package.json'')) (\<lambda>packageJson.
                 io_return (Some packageJson))))
              (\<lambda>error.
                 if \<not> isDryRun then
                   io_throw (new_Error
                     ''Failed to parse package.json. Please ensure it contains valid JSON.'')
                 else io_return None))
           (\<lambda>parsed.
              case parsed of
                None \<Rightarrow> io_return ()
              | Some packageJson \<Rightarrow>
                  if \<not> has_prepublishOnly packageJson then
                    (if \<not> isDryRun then
                       io_throw (new_Error (''prepublishOnly script is required in package.json but was not found. ''
                         @ ''Please add a prepublishOnly script that runs your pre-flight checks ''
                         @ ''(e.g., clean, lint, build, test).''))
                     else io_return ())
                  else io_return ()))"

text \<open>\<open>[...new Set(xs)]\<close>: the first occurrence of each element, in order.\<close>

definition dedupe :: "string list \<Rightarrow> string list" where
  "dedupe xs = rev (remdups (rev xs))"

definition runPrechecks :: "world \<Rightarrow> config \<Rightarrow> string \<Rightarrow> unit io" where
  "runPrechecks w runConfig targetBranch =
     (let isDryRun = dryRun runConfig;
          effectiveTargetBranch =
            (if targetBranch \<noteq> [] then targetBranch
             else or_default (p_targetBranch runConfig) ''main'')
      in
      io_seq
        (io_catch
           (if isDryRun then io_return ()
            else io_seq (run w ''git rev-parse --git-dir'') (io_return ()))
           (\<lambda>error.
              if \<not> isDryRun then
                io_throw (new_Error (''Not in a git repository or git command failed: ''
                  @ originalMessage error
                  @ ''. Please run this command from within a git repository.''))
              else io_return ()))
     (io_seq
        (io_catch
           (if isDryRun then io_return ()
            else io_bind (run w ''git status --porcelain'') (\<lambda>stdout.
                   if trim stdout \<noteq> [] then
                     io_throw (new_Error (''Working directory has uncommitted changes. ''
                       @ ''Please commit or stash your changes before running publish.''))
                   else io_return ()))
           (\<lambda>error.
              if \<not> isDryRun then
                io_throw (new_Error (''Failed to check git status: '' @ originalMessage error
                  @ ''. Please ensure you are in a valid git repository and try again.''))
              else io_return ()))
     (io_seq
        (if isDryRun then io_return ()
         else io_bind (ask (w_text w) GetCurrentBranchName) (\<lambda>currentBranch.
                if currentBranch = effectiveTargetBranch then
                  io_throw (new_Error (''Cannot run publish from the target branch ''
                    @ quoted effectiveTargetBranch
                    @ ''. Please switch to a different branch before running publish.''))
                else io_return ()))
     (io_bind
        (if isDryRun then io_return False
         else precheckBranchSync w runConfig effectiveTargetBranch)
        (\<lambda>returned.
           if returned then io_return ()
           else
             io_seq (precheckPackageJson w isDryRun)
            (io_bind (if isDryRun then io_return [] else scanNpmrcForEnvVars w) (\<lambda>npmrcEnvVars.
               let coreRequiredEnvVars =
                     (case p_requiredEnvVars runConfig of None \<Rightarrow> [] | Some vs \<Rightarrow> vs);
                   allRequiredEnvVars = dedupe (coreRequiredEnvVars @ npmrcEnvVars)
               in if length allRequiredEnvVars > 0 then
                    validateEnvironmentVariables w allRequiredEnvVars isDryRun
                  else io_return ())))))))"

definition handleTargetBranchSyncRecovery :: "world \<Rightarrow> config \<Rightarrow> string \<Rightarrow> unit io" where
  "handleTargetBranchSyncRecovery w runConfig targetBranch =
     (if dryRun runConfig then io_return ()
      else
        io_bind (ask (w_sync_result w) (SafeSyncBranchWithRemote targetBranch)) (\<lambda>syncResult.
          if success syncResult then io_return ()
          else if conflictResolutionRequired syncResult then
            io_throw (new_Error (''Target branch '' @ quoted targetBranch
              @ '' has conflicts that require manual resolution.''))
          else
            io_throw (new_Error (''Failed to sync target branch: ''
              @ (case sr_error syncResult of None \<Rightarrow> ''undefined'' | Some e \<Rightarrow> e)))))"

section \<open>The release command\<close>

fun readContextParts :: "world \<Rightarrow> string list \<Rightarrow> string list io" where
  "readContextParts w [] = io_return []"
| "readContextParts w (filePath # rest) =
     io_bind
       (io_catch
          (io_bind (ask (w_text w) (StorageReadFile filePath)) (\<lambda>content.
             io_return [''## Context from '' @ filePath @ [newline, newline] @ content @ [newline]]))
          (\<lambda>error. io_return []))
       (\<lambda>part. io_bind (readContextParts w rest) (\<lambda>parts. io_return (part @ parts)))"

definition readContextFiles :: "world \<Rightarrow> string list option \<Rightarrow> string io" where
  "readContextFiles w contextFiles =
     (case contextFiles of
        None \<Rightarrow> io_return []
      | Some files \<Rightarrow>
          if length files = 0 then io_return []
          else io_bind (readContextParts w files) (\<lambda>contextParts.
                 io_return (join ([newline] @ ''---'' @ [newline, newline]) contextParts)))"

text \<open>
  \<open>determineVersionsForMilestones\<close>. A version of the manifest that is not a string
  adds nothing.
\<close>

definition determineVersionsForMilestones :: "world \<Rightarrow> config \<Rightarrow> string list io" where
  "determineVersionsForMilestones w runConfig =
     io_bind
       (io_catch
          (io_bind (ask (w_text w) (StorageReadFile ''package.json'')) (\<lambda>packageJsonContents.
           io_bind (lift (safeJsonParse w packageJsonContents ''package.json'')) (\<lambda>packageJson.
           io_bind (lift (property packageJson ''version'')) (\<lambda>currentVersion.
             case currentVersion of
               Some (JStr v) \<Rightarrow>
                 if v = [] then io_return []
                 else if str_includes v ''-dev.'' then
                   io_return [takeWhile (\<lambda>c. c \<noteq> CHR ''-'') v]
                 else io_return [v]
             | _ \<Rightarrow> io_return []))))
          (\<lambda>error. io_return []))
       (\<lambda>versions.
          case p_targetVersion runConfig of
            None \<Rightarrow> io_return versions
          | Some targetVersion \<Rightarrow>
              if targetVersion \<noteq> [] \<and> targetVersion \<noteq> ''patch'' \<and> targetVersion \<noteq> ''minor''
                 \<and> targetVersion \<noteq> ''major'' \<and> targetVersion \<notin> set versions
              then io_return (versions @ [targetVersion])
              else io_return versions)"

definition getOutputPath :: "string \<Rightarrow> string \<Rightarrow> string" where
  "getOutputPath dir file = dir @ ''/'' @ file"

definition generateSelfReflection :: "world \<Rightarrow> string \<Rightarrow> unit io" where
  "generateSelfReflection w outputDir =
     io_catch
       (io_bind (ask (w_text w) GenerateReflectionReport) (\<lambda>report.
          discard (ask (w_text w)
            (StorageWriteFile
               (getOutputPath outputDir
                  (''agentic-reflection-release-'' @ timestamp w @ ''.md''))
               report))))
       (\<lambda>error. io_return ())"

text \<open>
  \<open>execute\<close> of the release command. The interactive feedback loop, which runs only
  outside dry-run mode, is one exchange with the operator that yields the final notes.
\<close>

definition release_execute :: "world \<Rightarrow> config \<Rightarrow> release_summary io" where
  "release_execute w runConfig =
     (let isDryRun = dryRun runConfig in
      io_bind
        (case r_currentBranch runConfig of
           None \<Rightarrow> ask (w_text w) GetCurrentBranch
         | Some b \<Rightarrow> if b \<noteq> [] then io_return b else ask (w_text w) GetCurrentBranch)
        (\<lambda>currentBranch.
      io_bind
        (case r_from runConfig of
           None \<Rightarrow> ask (w_text w) (GetDefaultFromRef (r_fromMain runConfig) currentBranch)
         | Some f \<Rightarrow> io_return f)
        (\<lambda>fromRef.
      let toRef = (case r_to runConfig of None \<Rightarrow> DEFAULT_TO_COMMIT_ALIAS w | Some t \<Rightarrow> t) in
      io_seq (ask (w_text w) (LogCreate fromRef toRef))
     (io_seq (ask (w_text w) (DiffCreate fromRef toRef))
     (io_bind (ask (w_text w) DiffGet) (\<lambda>diffContent.
      io_bind (ask (w_text w) LogGet) (\<lambda>logContent.
      io_bind
        (if \<not> r_noMilestones runConfig then
           io_bind (determineVersionsForMilestones w runConfig) (\<lambda>versions.
             if length versions > 0 then
               ask (w_text w) (GetMilestoneIssuesForRelease versions 50000)
             else io_return [])
         else io_return [])
        (\<lambda>milestoneIssuesContent.
      let outputDir = or_default (outputDirectory runConfig) (DEFAULT_OUTPUT_DIRECTORY w) in
      io_seq (ask (w_text w) (StorageEnsureDirectory outputDir))
     (io_bind (readContextFiles w (r_contextFiles runConfig)) (\<lambda>contextFromFiles.
      io_bind (ask (w_summary w) (RunAgenticRelease fromRef toRef)) (\<lambda>releaseNotes.
      io_seq
        (if r_selfReflection runConfig then generateSelfReflection w outputDir
         else io_return ())
     (io_bind
        (let releaseSummary =
               \<lparr>title = filterContent w (title releaseNotes),
                body = filterContent w (body releaseNotes)\<rparr>
         in if r_interactive runConfig \<and> \<not> isDryRun then
              io_seq (ask (w_text w) RequireTTY)
                (ask (w_summary w)
                   (InteractiveReleaseFeedback (title releaseSummary) (body releaseSummary)))
            else io_return releaseSummary)
        (\<lambda>releaseSummary.
      io_seq
        (io_catch
           (discard (ask (w_text w)
              (StorageWriteFile
                 (getOutputPath outputDir (''release-notes-'' @ timestamp w @ ''.md''))
                 (''# '' @ title releaseSummary @ [newline, newline] @ body releaseSummary))))
           (\<lambda>error. io_return ()))
        (io_return releaseSummary))))))))))))))"

section \<open>The publish command, continued\<close>

subsection \<open>Preparing the release\<close>

definition relative_file_ref :: "string \<Rightarrow> bool" where
  "relative_file_ref s =
     (prefix ''file:'' s \<and> (let p = drop 5 s in prefix ''../'' p \<or> prefix ''./'' p))"

text \<open>\<open>Object.entries(value)\<close>\<close>

fun entries :: "json \<Rightarrow> (string \<times> json) list" where
  "entries (JObj kvs) = kvs"
| "entries (JArr xs) = zip (map show_nat [0..<length xs]) xs"
| "entries (JStr s) = zip (map show_nat [0..<length s]) (map (\<lambda>c. JStr [c]) s)"
| "entries v = []"

text \<open>The loops over the lock file's sections: the first relative \<open>file:\<close> reference ends them.\<close>

fun scan_entries :: "string \<Rightarrow> (string \<times> json) list \<Rightarrow> error + bool" where
  "scan_entries field [] = Inr False"
| "scan_entries field ((k, pkgInfo) # rest) =
     (case property pkgInfo field of
        Inl e \<Rightarrow> Inl e
      | Inr (Some (JStr s)) \<Rightarrow>
          if relative_file_ref s then Inr True else scan_entries field rest
      | Inr _ \<Rightarrow> scan_entries field rest)"

definition hasFileReferences :: "json \<Rightarrow> error + bool" where
  "hasFileReferences packageLock =
     (case property packageLock ''packages'' of
        Inl e \<Rightarrow> Inl e
      | Inr packages \<Rightarrow>
          (case (case packages of
                   None \<Rightarrow> Inr False
                 | Some ps \<Rightarrow> if truthy packages then scan_entries ''resolved'' (entries ps)
                              else Inr False) of
             Inl e \<Rightarrow> Inl e
           | Inr found \<Rightarrow>
               if found then Inr True
               else (case property packageLock ''dependencies'' of
                       Inl e \<Rightarrow> Inl e
                     | Inr None \<Rightarrow> Inr False
                     | Inr (Some ds) \<Rightarrow>
                         if truthy (Some ds) then scan_entries ''version'' (entries ds)
                         else Inr False)))"

definition cleanupNpmLinkReferences :: "world \<Rightarrow> bool \<Rightarrow> unit io" where
  "cleanupNpmLinkReferences w isDryRun =
     io_catch
       (io_bind (succeeds (ask (w_text w) (FsAccess ''package-lock.json''))) (\<lambda>present.
          if \<not> present then io_return ()
          else
            io_bind (ask (w_text w) (FsReadFile ''package-lock.json'')) (\<lambda>packageLockContent.
            io_bind (lift (safeJsonParse w packageLockContent ''package-lock.json'')) (\<lambda>packageLock.
            io_bind (lift (hasFileReferences packageLock)) (\<lambda>found.
              if found then
                (if isDryRun then io_return ()
                 else io_seq (ask (w_text w) (FsUnlink ''package-lock.json''))
                        (discard (runWithDryRunSupport w
                           ''npm install --package-lock-only --no-audit --no-fund'' isDryRun)))
              else io_return ())))))
       (\<lambda>error. io_return ())"

text \<open>\<open>error.message && error.message.includes(t)\<close>\<close>

definition message_includes :: "error \<Rightarrow> string \<Rightarrow> bool" where
  "message_includes e t = (message e \<noteq> [] \<and> str_includes (message e) t)"

definition syncCurrentBranch :: "world \<Rightarrow> string \<Rightarrow> unit io" where
  "syncCurrentBranch w currentBranch =
     io_seq (io_catch (discard (run w ''git fetch origin'')) (\<lambda>error. io_return ()))
       (io_catch
          (io_bind
             (succeeds (run w (''git ls-remote --exit-code --heads origin '' @ currentBranch)))
             (\<lambda>remoteExists.
                if remoteExists then
                  runGitWithLock (''sync '' @ currentBranch)
                    (io_seq (run w (''git fetch origin '' @ currentBranch))
                       (discard (run w (''git merge origin/'' @ currentBranch @ '' --no-edit''))))
                else io_return ()))
          (\<lambda>error.
             if message_includes error ''CONFLICT'' then
               io_throw (new_Error (''Merge conflicts detected when syncing '' @ currentBranch
                 @ '' with remote. Please resolve conflicts manually.''))
             else io_return ()))"

definition branchConfigOf :: "config \<Rightarrow> string \<Rightarrow> branch_config option" where
  "branchConfigOf runConfig b = (case branches runConfig of None \<Rightarrow> None | Some bs \<Rightarrow> bs b)"

text \<open>The target branch and whether branch-dependent versioning applies.\<close>

definition resolveTargetBranch :: "config \<Rightarrow> string \<Rightarrow> string \<times> bool" where
  "resolveTargetBranch runConfig currentBranch =
     (let targetBranch = or_default (p_targetBranch runConfig) ''main'' in
      case branchConfigOf runConfig currentBranch of
        None \<Rightarrow> (targetBranch, False)
      | Some branchConfig \<Rightarrow> (or_default (bc_targetBranch branchConfig) targetBranch, True))"

definition ensureTargetBranch :: "world \<Rightarrow> string \<Rightarrow> unit io" where
  "ensureTargetBranch w targetBranch =
     io_bind (ask (w_bool w) (LocalBranchExists targetBranch)) (\<lambda>targetBranchExists.
       if \<not> targetBranchExists then
         io_bind (ask (w_bool w) (RemoteBranchExists targetBranch)) (\<lambda>remoteExists.
           if remoteExists then
             io_catch
               (runGitWithLock (''track target branch '' @ targetBranch)
                  (discard (runSecure w ''git'' [''branch'', targetBranch, ''origin/'' @ targetBranch])))
               (\<lambda>error. io_throw (new_Error (''Failed to track target branch ''
                  @ quoted targetBranch @ '': '' @ message error)))
           else
             io_catch
               (runGitWithLock (''create and push target branch '' @ targetBranch)
                  (io_seq (runSecure w ''git'' [''branch'', targetBranch, ''HEAD''])
                     (discard (runSecure w ''git'' [''push'', ''origin'', targetBranch]))))
               (\<lambda>error. io_throw (new_Error (''Failed to create target branch ''
                  @ quoted targetBranch @ '': '' @ message error))))
       else io_return ())"

text \<open>
  The early check of release necessity. The value \<open>True\<close> stands for the \<open>return\<close>
  that ends \<open>execute\<close>; the marker is written with \<open>console.log\<close>.
\<close>

definition releaseNecessityCheck :: "world \<Rightarrow> string \<Rightarrow> bool \<Rightarrow> bool io" where
  "releaseNecessityCheck w targetBranch isDryRun =
     io_catch
       (io_bind (isReleaseNecessaryComparedToTarget w targetBranch isDryRun) (\<lambda>necessity.
          if \<not> necessary necessity then
            io_seq (emit (Stdout ''KODRDRIV_PUBLISH_SKIPPED'')) (io_return True)
          else io_return False))
       (\<lambda>error. io_return False)"

definition commitIfStaged :: "world \<Rightarrow> string \<Rightarrow> unit io" where
  "commitIfStaged w lockName =
     io_bind (ask (w_bool w) HasStagedChanges) (\<lambda>staged.
       if staged then runGitWithLock lockName (discard (ask (w_text w) CommitCommit))
       else io_return ())"

definition updateDependencies :: "world \<Rightarrow> config \<Rightarrow> unit io" where
  "updateDependencies w runConfig =
     (let isDryRun = dryRun runConfig in
      io_seq (cleanupNpmLinkReferences w isDryRun)
     (io_seq
        (case p_updateDeps runConfig of
           None \<Rightarrow> io_return ()
         | Some updateDepsScope \<Rightarrow>
             if updateDepsScope \<noteq> [] then discard (ask (w_text w) (UpdatesUpdates updateDepsScope))
             else io_return ())
     (io_seq
        (case p_dependencyUpdatePatterns runConfig of
           None \<Rightarrow> runWithDryRunSupport w ''npm update'' isDryRun
         | Some updatePatterns \<Rightarrow>
             if length updatePatterns > 0 then
               runWithDryRunSupport w (''npm update '' @ join '' '' updatePatterns) isDryRun
             else runWithDryRunSupport w ''npm update'' isDryRun)
     (io_seq (runWithDryRunSupport w ''npm run prepublishOnly'' isDryRun)
     (io_seq
        (runGitWithLock ''stage dependency updates''
           (runWithDryRunSupport w ''git add package.json'' isDryRun))
        (if isDryRun then io_return () else commitIfStaged w ''commit dependency updates''))))))"

subsection \<open>The optional merge of the target branch before the version bump\<close>

definition dq :: string where
  "dq = [CHR 0x22]"

definition errorText :: "error \<Rightarrow> string" where
  "errorText e = join '' '' [message e, err_stdout e, err_stderr e]"

definition versionFiles :: "string list" where
  "versionFiles = [''package.json'']"

fun resolveConflicts :: "world \<Rightarrow> string list \<Rightarrow> unit io" where
  "resolveConflicts w [] = io_return ()"
| "resolveConflicts w (file # rest) =
     (if file \<in> set versionFiles then
        io_seq (run w (''git checkout --ours '' @ file))
       (io_seq (run w (''git add '' @ file))
          (resolveConflicts w rest))
      else resolveConflicts w rest)"

definition conflicts_of :: "string \<Rightarrow> string list" where
  "conflicts_of conflictedFiles = filter_Boolean (split_on newline (trim conflictedFiles))"

definition autoResolveConflicts :: "world \<Rightarrow> string \<Rightarrow> unit io" where
  "autoResolveConflicts w targetBranch =
     io_bind (run w ''git diff --name-only --diff-filter=U'') (\<lambda>conflictedFiles.
       let conflicts = conflicts_of conflictedFiles;
           nonVersionConflicts = filter (\<lambda>f. f \<notin> set versionFiles) conflicts
       in if length nonVersionConflicts > 0 then
            io_throw (new_Error ''Merge conflicts in non-version files. Please resolve manually.'')
          else
            io_seq (resolveConflicts w conflicts)
              (discard (run w (''git commit --no-edit -m '' @ dq @ ''Merge '' @ targetBranch
                 @ '' to sync before version bump (auto-resolved version conflicts)'' @ dq))))"

text \<open>The merge itself; the value is \<open>mergeSucceeded\<close>.\<close>

definition mergeTargetIntoCurrent :: "world \<Rightarrow> string \<Rightarrow> bool io" where
  "mergeTargetIntoCurrent w targetBranch =
     io_catch
       (io_seq (run w (''git merge '' @ targetBranch @ '' --no-edit -m '' @ dq @ ''Merge ''
                  @ targetBranch @ '' to sync before version bump'' @ dq))
          (io_return True))
       (\<lambda>mergeError.
          if str_includes (errorText mergeError) ''CONFLICT'' then
            io_seq (autoResolveConflicts w targetBranch) (io_return True)
          else io_throw mergeError)"

definition postMergeInstall :: "world \<Rightarrow> unit io" where
  "postMergeInstall w =
     io_seq (run w ''npm install'')
       (io_bind (run w ''git status --porcelain'') (\<lambda>mergeChangesStatus.
          if trim mergeChangesStatus \<noteq> [] then
            io_seq (run w ''git add package.json'')
              (io_bind (ask (w_bool w) HasStagedChanges) (\<lambda>staged.
                 if staged then discard (ask (w_text w) CommitCommit) else io_return ()))
          else io_return ()))"

definition prePublishMerge :: "world \<Rightarrow> config \<Rightarrow> string \<Rightarrow> unit io" where
  "prePublishMerge w runConfig targetBranch =
     (let skipPreMerge = (p_skipPrePublishMerge runConfig \<noteq> Some False) in
      if skipPreMerge then io_return ()
      else if dryRun runConfig then io_return ()
      else
        runGitWithLock (''merge '' @ targetBranch @ '' into current branch'')
          (io_seq
             (io_catch
                (discard (run w (''git fetch origin '' @ targetBranch @ '':'' @ targetBranch)))
                (\<lambda>fetchError. io_return ()))
             (io_bind (run w (''git merge-base HEAD '' @ targetBranch)) (\<lambda>mergeBase.
              io_bind (run w (''git rev-parse '' @ targetBranch)) (\<lambda>targetCommit.
                if trim mergeBase = trim targetCommit then io_return ()
                else
                  io_bind (mergeTargetIntoCurrent w targetBranch) (\<lambda>mergeSucceeded.
                    if mergeSucceeded then postMergeInstall w else io_return ()))))))"

subsection \<open>The version, its tag and the registry\<close>

text \<open>A step either ends \<open>execute\<close> with \<open>return\<close> or hands a value on.\<close>

datatype 'a flow = Return | Continue 'a

text \<open>\<open>obj[key] = v\<close>: an existing member keeps its place, a new one is added last.\<close>

fun set_member :: "(string \<times> json) list \<Rightarrow> string \<Rightarrow> json \<Rightarrow> (string \<times> json) list" where
  "set_member [] k v = [(k, v)]"
| "set_member ((k', v') # kvs) k v =
     (if k' = k then (k, v) # kvs else (k', v') # set_member kvs k v)"

text \<open>Force republish: both deletions are attempted, and a failure of either is only logged.\<close>

definition deleteExistingTag :: "world \<Rightarrow> string \<Rightarrow> unit io" where
  "deleteExistingTag w targetTagName =
     io_seq
       (io_catch (discard (runSecure w ''git'' [''tag'', ''-d'', targetTagName]))
          (\<lambda>error. io_return ()))
       (io_catch
          (discard (runSecure w ''git'' [''push'', ''origin'', '':refs/tags/'' @ targetTagName]))
          (\<lambda>error. io_return ()))"

text \<open>The body of \<open>if (tagExists)\<close>.\<close>

definition handleExistingTag :: "world \<Rightarrow> config \<Rightarrow> json option \<Rightarrow> string \<Rightarrow> unit flow io" where
  "handleExistingTag w runConfig packageName proposedVersion =
     (let targetTagName = ''v'' @ proposedVersion in
      io_bind (ask (w_opt w) (GetNpmPublishedVersion packageName)) (\<lambda>npmVersion.
      io_bind (ask (w_opt w) (GetTagInfo targetTagName)) (\<lambda>tagInfo.
        if npmVersion = Some proposedVersion then
          (if p_skipAlreadyPublished runConfig then
             io_seq (emit (Stdout ''KODRDRIV_PUBLISH_SKIPPED'')) (io_return Return)
           else
             io_throw (new_Error (''Version '' @ proposedVersion
               @ '' already published. Use --skip-already-published to continue.'')))
        else if p_forceRepublish runConfig then
          (if \<not> dryRun runConfig then
             io_seq (deleteExistingTag w targetTagName) (io_return (Continue ()))
           else io_return (Continue ()))
        else
          io_throw (new_Error (''Tag '' @ targetTagName
            @ '' already exists. Use --force-republish to override.'')))))"

definition confirmVersion ::
  "world \<Rightarrow> config \<Rightarrow> (string \<times> json) list \<Rightarrow> string \<Rightarrow> string io" where
  "confirmVersion w runConfig packageJson proposedVersion =
     (if p_interactive runConfig then
        io_bind
          (ask (w_text w) (ConfirmVersionInteractively (get_member packageJson ''version'')
             proposedVersion (p_targetVersion runConfig)))
          (\<lambda>newVersion.
        io_bind (ask (w_bool w) (CheckIfTagExists (''v'' @ newVersion))) (\<lambda>confirmedTagExists.
          if confirmedTagExists then
            io_bind (ask (w_opt w) (GetNpmPublishedVersion (get_member packageJson ''name'')))
              (\<lambda>npmVersion.
                 if npmVersion = Some newVersion then
                   io_throw (new_Error (''Tag v'' @ newVersion
                     @ '' already exists and version is published on npm. Please choose a different version.''))
                 else if \<not> p_forceRepublish runConfig then
                   io_throw (new_Error (''Tag v'' @ newVersion
                     @ '' already exists. Use --force-republish to override.''))
                 else io_return newVersion)
          else io_return newVersion))
      else io_return proposedVersion)"

text \<open>
  Step 4 outside dry-run mode: the proposed version, the tag check against the proposed
  version, and the manifest written with the new version. The value is the new version
  and the target branch, which branch-dependent versioning may replace. The proposal is
  computed from the branch policy when branch-dependent versioning applies, and from the
  operator's target (\<open>patch\<close> by default) otherwise.
\<close>

definition proposeVersion ::
  "world \<Rightarrow> config \<Rightarrow> json option \<Rightarrow> string \<Rightarrow> string \<Rightarrow> bool \<Rightarrow> (string \<times> string) io" where
  "proposeVersion w runConfig currentVersion currentBranch targetBranch branchDependentVersioning =
     (if branchDependentVersioning \<and> branches runConfig \<noteq> None then
        ask (w_version w)
          (CalculateBranchDependentVersion currentVersion currentBranch targetBranch)
      else
        io_bind
          (lift (calculateTargetVersion w currentVersion
             (or_default (p_targetVersion runConfig) ''patch'')))
          (\<lambda>proposedVersion. io_return (proposedVersion, targetBranch)))"

definition determineVersion ::
  "world \<Rightarrow> config \<Rightarrow> string \<Rightarrow> string \<Rightarrow> bool \<Rightarrow> (string \<times> string) flow io" where
  "determineVersion w runConfig currentBranch targetBranch branchDependentVersioning =
     io_bind (ask (w_text w) (StorageReadFile ''package.json'')) (\<lambda>packageJsonContents.
     io_bind (lift (parsePackageJson w packageJsonContents ''package.json'')) (\<lambda>packageJson.
     io_bind
       (proposeVersion w runConfig (get_member packageJson ''version'') currentBranch
          targetBranch branchDependentVersioning)
       (\<lambda>proposal.
     let proposedVersion = fst proposal; finalTargetBranch = snd proposal in
     io_bind (ask (w_bool w) (CheckIfTagExists (''v'' @ proposedVersion))) (\<lambda>tagExists.
     io_bind
       (if tagExists then
          handleExistingTag w runConfig (get_member packageJson ''name'') proposedVersion
        else io_return (Continue ()))
       (\<lambda>checked.
          case checked of
            Return \<Rightarrow> io_return Return
          | Continue _ \<Rightarrow>
              io_bind (confirmVersion w runConfig packageJson proposedVersion) (\<lambda>newVersion.
              io_seq
                (ask (w_text w) (StorageWriteFile ''package.json''
                   (JSON_pretty w (JObj (set_member packageJson ''version'' (JStr newVersion)))
                    @ [newline])))
                (io_return (Continue (newVersion, finalTargetBranch)))))))))"

text \<open>The configuration handed to the release command.\<close>

definition releaseConfig_of :: "config \<Rightarrow> string \<Rightarrow> config" where
  "releaseConfig_of runConfig currentBranch =
     runConfig
       \<lparr>r_currentBranch := Some currentBranch,
        r_from := (case p_from runConfig of
                     None \<Rightarrow> r_from runConfig
                   | Some f \<Rightarrow> if f \<noteq> [] then Some f else r_from runConfig),
        r_interactive := (if p_interactive runConfig then True else r_interactive runConfig),
        r_fromMain := (if p_fromMain runConfig then True else r_fromMain runConfig)\<rparr>"

definition mock_pr :: pull_request where
  "mock_pr = \<lparr>pr_number = 123, html_url = ''https://github.com/mock/repo/pull/123''\<rparr>"

text \<open>
  Step 5 and what follows it up to the new pull request: the version bump is committed,
  the release notes are generated, the branch is pushed and the pull request is opened.
\<close>

definition openPullRequest :: "world \<Rightarrow> config \<Rightarrow> string \<Rightarrow> string \<Rightarrow> pull_request io" where
  "openPullRequest w runConfig currentBranch targetBranch =
     (let isDryRun = dryRun runConfig in
      io_seq
        (runGitWithLock ''stage version bump''
           (runWithDryRunSupport w ''git add package.json'' isDryRun))
     (io_seq (if isDryRun then io_return () else commitIfStaged w ''commit version bump'')
     (io_bind (release_execute w (releaseConfig_of runConfig currentBranch)) (\<lambda>releaseSummary.
      io_seq
        (if isDryRun then io_return ()
         else
           (let outputDir = or_default (outputDirectory runConfig) (DEFAULT_OUTPUT_DIRECTORY w) in
            io_seq (ask (w_text w) (StorageEnsureDirectory outputDir))
           (io_seq
              (ask (w_text w) (StorageWriteFile (getOutputPath outputDir ''RELEASE_NOTES.md'')
                 (body releaseSummary)))
              (discard
                 (ask (w_text w) (StorageWriteFile (getOutputPath outputDir ''RELEASE_TITLE.md'')
                    (title releaseSummary)))))))
     (io_bind (ask (w_text w) GetCurrentBranchName) (\<lambda>branchName.
      io_seq
        (runGitWithLock (''push '' @ branchName)
           (runWithDryRunSupport w (''git push origin '' @ branchName) isDryRun))
        (if isDryRun then io_return mock_pr
         else
           io_bind (run w ''git log -1 --pretty=%B'') (\<lambda>rawCommitTitle.
           let commitTitle = filterContent w rawCommitTitle;
               prBody = filterContent w ''Automated release PR.''
           in io_bind
                (ask (w_pr w) (CreatePullRequest commitTitle prBody branchName targetBranch))
                (\<lambda>created.
                   case created of
                     None \<Rightarrow> io_throw (new_Error ''Failed to create pull request.'')
                   | Some pr \<Rightarrow> io_return pr)))))))))"

text \<open>
  The path taken when no open pull request exists: from the dependency update to the
  new pull request. The value is the pull request and the target branch.
\<close>

definition createPullRequestPath ::
  "world \<Rightarrow> config \<Rightarrow> string \<Rightarrow> string \<Rightarrow> bool \<Rightarrow> (pull_request \<times> string) flow io" where
  "createPullRequestPath w runConfig currentBranch targetBranch branchDependentVersioning =
     io_seq (updateDependencies w runConfig)
    (io_seq (prePublishMerge w runConfig targetBranch)
    (io_bind
       (if dryRun runConfig then io_return (Continue (''1.0.0'', targetBranch))
        else determineVersion w runConfig currentBranch targetBranch branchDependentVersioning)
       (\<lambda>versioned.
          case versioned of
            Return \<Rightarrow> io_return Return
          | Continue (newVersion, finalTargetBranch) \<Rightarrow>
              io_bind (openPullRequest w runConfig currentBranch finalTargetBranch)
                (\<lambda>pr. io_return (Continue (pr, finalTargetBranch))))))"

subsection \<open>The pull request, the tag and the release\<close>

definition waitForChecks :: "world \<Rightarrow> config \<Rightarrow> pull_request \<Rightarrow> unit io" where
  "waitForChecks w runConfig pr =
     (if \<not> dryRun runConfig then
        (let timeout = num_or_default (p_checksTimeout runConfig) (default_checksTimeout w);
             skipUserConfirmation = (p_sendit runConfig \<or> p_skipUserConfirmation runConfig)
         in discard (ask (w_text w)
              (WaitForPullRequestChecks (pr_number pr) timeout skipUserConfirmation)))
      else io_return ())"

definition mergePullRequest :: "world \<Rightarrow> config \<Rightarrow> pull_request \<Rightarrow> string \<Rightarrow> unit io" where
  "mergePullRequest w runConfig pr mergeMethod =
     (if dryRun runConfig then io_return ()
      else
        io_catch (discard (ask (w_text w) (MergePullRequest (pr_number pr) mergeMethod False)))
          (\<lambda>error.
             if message error \<noteq> []
                \<and> (str_includes (message error) ''not mergeable''
                   \<or> str_includes (message error) ''Pull Request is not mergeable''
                   \<or> str_includes (message error) ''merge conflict'')
             then io_throw (new_Error (''Merge conflicts detected in PR #''
                    @ show_nat (pr_number pr)
                    @ ''. Please resolve conflicts and re-run the command.''))
             else io_throw error))"

text \<open>The value is \<open>hasStashedChanges\<close>.\<close>

definition stashBeforeCheckout :: "world \<Rightarrow> bool \<Rightarrow> bool io" where
  "stashBeforeCheckout w isDryRun =
     (if \<not> isDryRun then
        io_bind (runSecure w ''git'' [''status'', ''--porcelain'']) (\<lambda>statusOutput.
          if trim statusOutput \<noteq> [] then
            io_seq
              (runSecure w ''git''
                 [''stash'', ''push'', ''-m'', ''kodrdriv: stash before checkout target branch''])
              (io_return True)
          else io_return False)
      else io_return False)"

definition checkoutAndSyncTarget :: "world \<Rightarrow> bool \<Rightarrow> string \<Rightarrow> unit io" where
  "checkoutAndSyncTarget w isDryRun targetBranch =
     io_catch
       (io_seq
          (runGitWithLock (''checkout '' @ targetBranch)
             (runWithDryRunSupport w (''git checkout '' @ targetBranch) isDryRun))
          (if \<not> isDryRun then
             io_catch
               (io_bind
                  (succeeds (run w (''git ls-remote --exit-code --heads origin '' @ targetBranch)))
                  (\<lambda>remoteExists.
                     if remoteExists then
                       runGitWithLock (''sync '' @ targetBranch)
                         (io_seq (run w (''git fetch origin '' @ targetBranch))
                            (discard (run w (''git merge origin/'' @ targetBranch @ '' --no-edit''))))
                     else io_return ()))
               (\<lambda>syncError.
                  if message_includes syncError ''CONFLICT'' then io_throw syncError
                  else io_return ())
           else io_return ()))
       (\<lambda>error.
          if \<not> isDryRun
             \<and> (str_includes (message error) ''conflict''
                \<or> str_includes (message error) ''CONFLICT''
                \<or> str_includes (message error) ''diverged''
                \<or> str_includes (message error) ''non-fast-forward'')
          then io_throw (new_Error (''Target branch '' @ quoted targetBranch
                 @ '' sync failed. Use recovery options above to resolve.''))
          else io_throw error)"

definition restoreStash :: "world \<Rightarrow> bool \<Rightarrow> unit io" where
  "restoreStash w hasStashedChanges =
     (if hasStashedChanges then
        io_catch (discard (runSecure w ''git'' [''stash'', ''pop''])) (\<lambda>stashError. io_return ())
      else io_return ())"

definition createLocalTag :: "world \<Rightarrow> string \<Rightarrow> unit io" where
  "createLocalTag w tagName =
     io_catch
       (if \<not> validateGitRef w tagName then
          io_throw (new_Error (''Invalid tag name: '' @ tagName))
        else
          io_bind (runSecure w ''git'' [''tag'', ''-l'', tagName]) (\<lambda>stdout.
            if trim stdout = tagName then io_return ()
            else runGitWithLock (''create tag '' @ tagName)
                   (discard (runSecure w ''git'' [''tag'', tagName]))))
       (\<lambda>error.
          runGitWithLock (''create tag '' @ tagName)
            (discard (runSecure w ''git'' [''tag'', tagName])))"

text \<open>The value is \<open>tagWasPushed\<close>.\<close>

definition pushTag :: "world \<Rightarrow> string \<Rightarrow> bool io" where
  "pushTag w tagName =
     io_catch
       (io_bind (runSecure w ''git'' [''ls-remote'', ''origin'', ''refs/tags/'' @ tagName])
          (\<lambda>stdout.
             if trim stdout \<noteq> [] then io_return False
             else
               io_seq
                 (runGitWithLock (''push tag '' @ tagName)
                    (discard (runSecure w ''git'' [''push'', ''origin'', tagName])))
                 (io_return True)))
       (\<lambda>error.
          io_catch
            (io_seq (runSecure w ''git'' [''push'', ''origin'', tagName]) (io_return True))
            (\<lambda>pushError.
               if message_includes pushError ''already exists'' then io_return False
               else io_throw pushError))"

definition createAndPushTag :: "world \<Rightarrow> bool \<Rightarrow> string io" where
  "createAndPushTag w isDryRun =
     (if isDryRun then io_return ''v1.0.0''
      else
        io_bind (ask (w_text w) (StorageReadFile ''package.json'')) (\<lambda>packageJsonContents.
        io_bind (lift (safeJsonParse w packageJsonContents ''package.json'')) (\<lambda>parsed.
        io_bind (lift (property parsed ''version'')) (\<lambda>version.
        let tagName = ''v'' @ to_String w version in
        io_seq (createLocalTag w tagName)
       (io_bind (pushTag w tagName) (\<lambda>tagWasPushed.
        io_seq (if tagWasPushed then emit (Sleep 5000) else io_return ())
          (io_return tagName)))))))"

text \<open>\<open>tagName.replace(/^v/, '')\<close>\<close>

definition strip_v :: "string \<Rightarrow> string" where
  "strip_v s = (case s of [] \<Rightarrow> [] | c # r \<Rightarrow> if c = CHR ''v'' then r else s)"

definition isTagNotFoundError :: "error \<Rightarrow> bool" where
  "isTagNotFoundError e =
     (message e \<noteq> []
      \<and> (str_includes (message e) ''not found''
         \<or> str_includes (message e) ''does not exist''
         \<or> str_includes (message e) ''Reference does not exist''))"

text \<open>The body of the \<open>try\<close> block of the retry loop.\<close>

definition createReleaseAttempt :: "world \<Rightarrow> config \<Rightarrow> string \<Rightarrow> string \<Rightarrow> string \<Rightarrow> unit io" where
  "createReleaseAttempt w runConfig tagName releaseTitle releaseNotesContent =
     io_seq (ask (w_text w) (CreateRelease tagName releaseTitle releaseNotesContent))
       (if \<not> p_noMilestones runConfig then
          discard (ask (w_text w) (CloseMilestoneForVersion (strip_v tagName)))
        else io_return ())"

text \<open>
  \<open>while (retries > 0) { try { .. break } catch (error) { .. } }\<close>: the last argument
  is \<open>retries\<close>, and the loop is entered with \<open>retries = 3\<close>.
\<close>

fun createReleaseWithRetry ::
  "world \<Rightarrow> config \<Rightarrow> string \<Rightarrow> string \<Rightarrow> string \<Rightarrow> nat \<Rightarrow> unit io" where
  "createReleaseWithRetry w runConfig tagName releaseTitle releaseNotesContent 0 = io_return ()"
| "createReleaseWithRetry w runConfig tagName releaseTitle releaseNotesContent (Suc n) =
     (let retries = Suc n in
      io_catch (createReleaseAttempt w runConfig tagName releaseTitle releaseNotesContent)
        (\<lambda>error.
           if isTagNotFoundError error \<and> retries > 1 then
             io_seq (emit (Sleep 3000))
               (createReleaseWithRetry w runConfig tagName releaseTitle releaseNotesContent n)
           else if isTagNotFoundError error then
             io_throw (new_Error (''Tag '' @ tagName @ '' was not found on GitHub after ''
               @ show_int (3 - int retries + 1)
               @ '' attempts. This may indicate a problem with tag creation or GitHub synchronization.''))
           else io_throw error))"

definition createGitHubRelease :: "world \<Rightarrow> config \<Rightarrow> string \<Rightarrow> unit io" where
  "createGitHubRelease w runConfig tagName =
     (if dryRun runConfig then io_return ()
      else
        (let outputDir = or_default (outputDirectory runConfig) (DEFAULT_OUTPUT_DIRECTORY w) in
         io_bind (ask (w_text w) (StorageReadFile (getOutputPath outputDir ''RELEASE_NOTES.md'')))
           (\<lambda>releaseNotesContent.
         io_bind (ask (w_text w) (StorageReadFile (getOutputPath outputDir ''RELEASE_TITLE.md'')))
           (\<lambda>releaseTitle.
              createReleaseWithRetry w runConfig tagName releaseTitle releaseNotesContent 3))))"

definition detectReleaseWorkflows :: "world \<Rightarrow> string list option io" where
  "detectReleaseWorkflows w =
     io_catch
       (io_bind (ask (w_list w) GetWorkflowsTriggeredByRelease) (\<lambda>names. io_return (Some names)))
       (\<lambda>error. io_return None)"

definition waitForReleaseWorkflowsStep :: "world \<Rightarrow> config \<Rightarrow> string \<Rightarrow> unit io" where
  "waitForReleaseWorkflowsStep w runConfig tagName =
     (let waitForWorkflows = (p_waitForReleaseWorkflows runConfig \<noteq> Some False) in
      if waitForWorkflows then
        (if dryRun runConfig then io_return ()
         else
           (let workflowTimeout = num_or_default (p_releaseWorkflowsTimeout runConfig)
                                    (default_releaseWorkflowsTimeout w);
                skipUserConfirmation = (p_sendit runConfig \<or> p_skipUserConfirmation runConfig)
            in io_bind
                 (case p_releaseWorkflowNames runConfig of
                    None \<Rightarrow> detectReleaseWorkflows w
                  | Some names \<Rightarrow>
                      if length names = 0 then detectReleaseWorkflows w
                      else io_return (Some names))
                 (\<lambda>workflowNames.
                    discard (ask (w_text w)
                      (WaitForReleaseWorkflows tagName workflowTimeout workflowNames
                         skipUserConfirmation)))))
      else io_return ())"

subsection \<open>Bringing the source branch back in line\<close>

text \<open>
  After the hard reset of a squash merge: the ancestry check and the forced push. The
  inner \<open>try\<close> block holds the fetch and the ancestry check, and its \<open>catch\<close> block is
  empty apart from a log line.
\<close>

definition forcePushAfterSquash :: "world \<Rightarrow> string \<Rightarrow> string \<Rightarrow> unit io" where
  "forcePushAfterSquash w currentBranch targetBranch =
     io_catch
       (io_seq
          (io_catch
             (io_seq (run w (''git fetch origin '' @ currentBranch))
                (discard (run w (''git merge-base --is-ancestor origin/'' @ currentBranch
                   @ '' '' @ targetBranch))))
             (\<lambda>error. io_return ()))
          (discard (run w (''git push --force-with-lease origin '' @ currentBranch))))
       (\<lambda>pushError. io_return ())"

definition syncSourceWithTarget :: "world \<Rightarrow> string \<Rightarrow> string \<Rightarrow> string \<Rightarrow> unit io" where
  "syncSourceWithTarget w mergeMethod currentBranch targetBranch =
     (if mergeMethod = ''squash'' then
        io_seq (run w (''git reset --hard '' @ targetBranch))
          (forcePushAfterSquash w currentBranch targetBranch)
      else
        io_bind (succeeds (runSecure w ''git'' [''merge'', targetBranch, ''--ff-only'']))
          (\<lambda>fastForwardSucceeded.
             if \<not> fastForwardSucceeded then
               discard (run w (''git merge '' @ targetBranch @ '' --no-edit''))
             else io_return ()))"

definition devVersionCommand :: "config \<Rightarrow> string \<Rightarrow> bool \<Rightarrow> string \<times> string" where
  "devVersionCommand runConfig currentBranch branchDependentVersioning =
     (case (if branchDependentVersioning then branchConfigOf runConfig currentBranch else None) of
        None \<Rightarrow> (''prepatch'', ''dev'')
      | Some sourceBranchConfig \<Rightarrow>
          (case bc_version sourceBranchConfig of
             None \<Rightarrow> (''prepatch'', ''dev'')
           | Some v \<Rightarrow>
               ((case vc_incrementLevel v of
                   None \<Rightarrow> ''prepatch''
                 | Some l \<Rightarrow> if l \<noteq> [] then ''pre'' @ l else ''prepatch''),
                or_default (vc_tag v) ''dev'')))"

definition bumpDevVersion :: "world \<Rightarrow> config \<Rightarrow> string \<Rightarrow> bool \<Rightarrow> unit io" where
  "bumpDevVersion w runConfig currentBranch branchDependentVersioning =
     (let versionCommand = fst (devVersionCommand runConfig currentBranch branchDependentVersioning);
          versionTag = snd (devVersionCommand runConfig currentBranch branchDependentVersioning)
      in
      io_seq
        (io_catch
           (io_bind
              (run w (''npm version '' @ versionCommand @ '' --preid='' @ versionTag
                 @ '' --no-git-tag-version''))
              (\<lambda>newVersion.
                 runGitWithLock ''commit dev version bump''
                   (io_seq (run w ''git add package.json'')
                      (discard (run w (''git commit -m '' @ dq @ ''chore: bump to ''
                         @ trim newVersion @ dq))))))
           (\<lambda>versionError. io_return ()))
        (io_catch
           (runGitWithLock (''push '' @ currentBranch)
              (discard (run w (''git push origin '' @ currentBranch))))
           (\<lambda>pushError. io_return ())))"

text \<open>Everything after the pull request is known: steps 7 to 9 of the orchestrator.\<close>

definition publishFromPullRequest ::
  "world \<Rightarrow> config \<Rightarrow> string \<Rightarrow> string \<Rightarrow> bool \<Rightarrow> pull_request \<Rightarrow> unit io" where
  "publishFromPullRequest w runConfig currentBranch targetBranch branchDependentVersioning pr =
     (let isDryRun = dryRun runConfig;
          mergeMethod = or_default (p_mergeMethod runConfig) ''squash''
      in
      io_seq (waitForChecks w runConfig pr)
     (io_seq (mergePullRequest w runConfig pr mergeMethod)
     (io_bind (stashBeforeCheckout w isDryRun) (\<lambda>hasStashedChanges.
      io_seq (checkoutAndSyncTarget w isDryRun targetBranch)
     (io_seq (restoreStash w hasStashedChanges)
     (io_bind (createAndPushTag w isDryRun) (\<lambda>tagName.
      io_seq (createGitHubRelease w runConfig tagName)
     (io_seq (waitForReleaseWorkflowsStep w runConfig tagName)
     (io_seq (runWithDryRunSupport w (''git checkout '' @ currentBranch) isDryRun)
        (if \<not> isDryRun then
           io_seq (syncSourceWithTarget w mergeMethod currentBranch targetBranch)
             (bumpDevVersion w runConfig currentBranch branchDependentVersioning)
         else io_return ()))))))))))"

subsection \<open>The orchestrator\<close>

text \<open>The lookup of an open pull request, keyed by the name of the current branch.\<close>

definition lookupPullRequest :: "world \<Rightarrow> bool \<Rightarrow> pull_request option io" where
  "lookupPullRequest w isDryRun =
     (if isDryRun then io_return None
      else
        io_bind (ask (w_text w) GetCurrentBranchName) (\<lambda>branchName.
          ask (w_pr w) (FindOpenPullRequestByHeadRef branchName)))"

text \<open>\<open>execute\<close> from the lookup of the pull request on.\<close>

definition publishRelease :: "world \<Rightarrow> config \<Rightarrow> string \<Rightarrow> string \<Rightarrow> bool \<Rightarrow> unit io" where
  "publishRelease w runConfig currentBranch targetBranch branchDependentVersioning =
     io_bind (lookupPullRequest w (dryRun runConfig)) (\<lambda>found.
     io_bind
       (case found of
          Some pr \<Rightarrow> io_return (Continue (pr, targetBranch))
        | None \<Rightarrow>
            createPullRequestPath w runConfig currentBranch targetBranch
              branchDependentVersioning)
       (\<lambda>opened.
          case opened of
            Return \<Rightarrow> io_return ()
          | Continue (pr, targetBranch) \<Rightarrow>
              publishFromPullRequest w runConfig currentBranch targetBranch
                branchDependentVersioning pr))"

text \<open>\<open>execute\<close> up to the prechecks: the current branch, synchronised with its remote.\<close>

definition currentBranchSynced :: "world \<Rightarrow> bool \<Rightarrow> string io" where
  "currentBranchSynced w isDryRun =
     (if isDryRun then io_return ''mock-branch''
      else
        io_bind (ask (w_text w) GetCurrentBranchName) (\<lambda>currentBranch.
          io_seq (syncCurrentBranch w currentBranch) (io_return currentBranch)))"

definition execute :: "world \<Rightarrow> config \<Rightarrow> unit io" where
  "execute w runConfig =
     (let isDryRun = dryRun runConfig in
      io_bind (currentBranchSynced w isDryRun) (\<lambda>currentBranch.
      let targetBranch = fst (resolveTargetBranch runConfig currentBranch);
          branchDependentVersioning = snd (resolveTargetBranch runConfig currentBranch)
      in
      if p_syncTarget runConfig then handleTargetBranchSyncRecovery w runConfig targetBranch
      else
        io_seq (if isDryRun then io_return () else ensureTargetBranch w targetBranch)
       (io_seq (runPrechecks w runConfig targetBranch)
       (io_bind (releaseNecessityCheck w targetBranch isDryRun) (\<lambda>skipped.
          if skipped then io_return ()
          else publishRelease w runConfig currentBranch targetBranch
                 branchDependentVersioning)))))"

section \<open>The development command\<close>

text \<open>
  The loop of \<open>createRetroactiveTags\<close> over the commits that bump to a \<open>-dev.0\<close>
  version; the value is the number of tags created (or, in dry-run mode, reported).
\<close>

fun tagDevCommits :: "world \<Rightarrow> bool \<Rightarrow> string \<Rightarrow> string list \<Rightarrow> nat io" where
  "tagDevCommits w isDryRun tagPrefix [] = io_return 0"
| "tagDevCommits w isDryRun tagPrefix (commitLine # rest) =
     (let sha = (case split_on (CHR '' '') commitLine of [] \<Rightarrow> [] | x # _ \<Rightarrow> x);
          msg = join '' '' (tl (split_on (CHR '' '') commitLine))
      in case regex_match w DevVersionCapture msg of
           Some (full # releaseVersion # groups) \<Rightarrow>
             (let workingTagName = tagPrefix @ ''v'' @ releaseVersion in
              io_bind (run w (''git tag -l '' @ dq @ workingTagName @ dq)) (\<lambda>tagExistsResult.
                if trim tagExistsResult \<noteq> [] then tagDevCommits w isDryRun tagPrefix rest
                else
                  io_seq
                    (if \<not> isDryRun then discard (run w (''git tag '' @ workingTagName @ '' '' @ sha))
                     else io_return ())
                    (io_bind (tagDevCommits w isDryRun tagPrefix rest) (\<lambda>n. io_return (Suc n)))))
         | _ \<Rightarrow> tagDevCommits w isDryRun tagPrefix rest)"

definition createRetroactiveTags :: "world \<Rightarrow> string \<Rightarrow> bool \<Rightarrow> string \<Rightarrow> unit io" where
  "createRetroactiveTags w workingBranch isDryRun tagPrefix =
     io_catch
       (io_bind (run w (''git log '' @ workingBranch @ '' --oneline --all'')) (\<lambda>stdout.
          let commits = split_on newline (trim stdout);
              devCommits = filter (regex_test w DevVersionBump) commits
          in io_bind (tagDevCommits w isDryRun tagPrefix devCommits) (\<lambda>tagsCreated.
               if tagsCreated > 0 \<and> \<not> isDryRun then discard (run w ''git push origin --tags'')
               else io_return ())))
       (\<lambda>error. io_return ())"

text \<open>
  \<open>value.includes(t)\<close> for a member that may be undefined: a string searches for the
  substring, an array for the element, and every other value throws.
\<close>

fun js_includes :: "json option \<Rightarrow> string \<Rightarrow> error + bool" where
  "js_includes (Some (JStr s)) t = Inr (str_includes s t)"
| "js_includes (Some (JArr xs)) t = Inr (JStr t \<in> set xs)"
| "js_includes v t = Inl TypeError"

text \<open>The prerelease tag and the increment level of the run.\<close>

definition allBranchConfig :: "world \<Rightarrow> config \<Rightarrow> (string \<Rightarrow> branch_config option) option" where
  "allBranchConfig w runConfig =
     (case branches runConfig of None \<Rightarrow> default_branches w | Some bs \<Rightarrow> Some bs)"

definition workingBranchOf :: "world \<Rightarrow> config \<Rightarrow> string" where
  "workingBranchOf w runConfig =
     (case branches runConfig of
        None \<Rightarrow> ''working''
      | Some bs \<Rightarrow> or_default (findDevelopmentBranch w bs) ''working'')"

definition workingBranchConfig :: "world \<Rightarrow> config \<Rightarrow> branch_config option" where
  "workingBranchConfig w runConfig =
     (case allBranchConfig w runConfig of
        None \<Rightarrow> None
      | Some bs \<Rightarrow> bs (workingBranchOf w runConfig))"

definition versionStrategy :: "world \<Rightarrow> config \<Rightarrow> error + string \<times> string" where
  "versionStrategy w runConfig =
     (case (case d_targetVersion runConfig of
              None \<Rightarrow> None
            | Some t \<Rightarrow> if t \<noteq> [] then Some t else None) of
        Some targetVersion \<Rightarrow>
          if targetVersion \<notin> set [''patch'', ''minor'', ''major'']
             \<and> \<not> regex_test w PlainVersion (strip_v targetVersion)
          then Inl (new_Error (''Invalid target version: '' @ targetVersion
                 @ ''. Expected '' @ dq @ ''patch'' @ dq @ '', '' @ dq @ ''minor'' @ dq @ '', ''
                 @ dq @ ''major'' @ dq @ '', or a valid version string like '' @ dq @ ''2.1.0'' @ dq))
          else Inr (''dev'', targetVersion)
      | None \<Rightarrow>
          (case workingBranchConfig w runConfig of
             None \<Rightarrow> Inr (''dev'', ''patch'')
           | Some workingConfig \<Rightarrow>
               (case bc_version workingConfig of
                  None \<Rightarrow> Inr (''dev'', ''patch'')
                | Some v \<Rightarrow>
                    Inr (or_default (vc_tag v) ''dev'', or_default (vc_incrementLevel v) ''patch''))))"

definition installAndCommit :: "world \<Rightarrow> string \<Rightarrow> unit io" where
  "installAndCommit w commitMessage =
     io_seq (run w ''npm install'')
       (io_bind (run w ''git status --porcelain'') (\<lambda>gitStatus.
          if trim gitStatus \<noteq> [] then
            io_seq (run w ''git add -A'')
              (discard (run w (''git commit -m '' @ dq @ commitMessage @ dq)))
          else io_return ()))"

text \<open>The special case of a run started on the branch \<open>development\<close>; the value is
  \<open>mergedDevelopmentIntoWorking\<close>.\<close>

definition mergeFromDevelopmentBranch :: "world \<Rightarrow> bool \<Rightarrow> string \<Rightarrow> string \<Rightarrow> bool io" where
  "mergeFromDevelopmentBranch w isDryRun currentBranch workingBranch =
     (if currentBranch = ''development'' then
        (if \<not> isDryRun then
           io_seq (run w (''git checkout '' @ workingBranch))
          (io_seq (run w (''git merge development --no-ff -m '' @ dq
                     @ ''Merge development into working for continued development'' @ dq))
          (io_seq (installAndCommit w ''chore: update dependencies after merge'')
             (io_return True)))
         else io_return True)
      else io_return False)"

datatype arrival = BranchCreated | BranchUpdated | AlreadyOnBranch | NoSwitch

text \<open>Step 2: the switch to the working branch; the value tells which flag was set.\<close>

definition switchToWorkingBranch ::
  "world \<Rightarrow> bool \<Rightarrow> bool \<Rightarrow> string \<Rightarrow> string \<Rightarrow> arrival io" where
  "switchToWorkingBranch w isDryRun mergedDevelopmentIntoWorking currentBranch workingBranch =
     (if \<not> isDryRun \<and> \<not> mergedDevelopmentIntoWorking then
        io_bind (ask (w_bool w) (LocalBranchExists workingBranch)) (\<lambda>workingBranchExists.
          if \<not> workingBranchExists then
            io_seq (run w (''git checkout -b '' @ workingBranch)) (io_return BranchCreated)
          else if currentBranch \<noteq> workingBranch then
            io_seq (run w (''git checkout '' @ workingBranch)) (io_return BranchUpdated)
          else io_return AlreadyOnBranch)
      else if \<not> mergedDevelopmentIntoWorking then
        io_bind (ask (w_bool w) (LocalBranchExists workingBranch)) (\<lambda>workingBranchExists.
          if \<not> workingBranchExists then io_return BranchCreated
          else if currentBranch \<noteq> workingBranch then io_return BranchUpdated
          else io_return AlreadyOnBranch)
      else io_return NoSwitch)"

text \<open>Step 2.1: the working branch is synchronised with its remote.\<close>

definition syncWorkingWithRemote :: "world \<Rightarrow> string \<Rightarrow> unit io" where
  "syncWorkingWithRemote w workingBranch =
     io_catch
       (io_bind
          (succeeds (run w (''git ls-remote --exit-code --heads origin '' @ workingBranch)))
          (\<lambda>remoteExists.
             if remoteExists then
               io_seq (run w (''git fetch origin '' @ workingBranch))
                 (discard (run w (''git merge origin/'' @ workingBranch @ '' --no-edit'')))
             else io_return ()))
       (\<lambda>error.
          if message_includes error ''CONFLICT'' then
            io_throw (new_Error (''Merge conflicts detected when syncing '' @ workingBranch
              @ '' with remote. Please resolve conflicts manually.''))
          else io_return ())"

text \<open>Step 2.5: the target branch is merged into the working branch.\<close>

definition syncWorkingWithTarget :: "world \<Rightarrow> config \<Rightarrow> string \<Rightarrow> unit io" where
  "syncWorkingWithTarget w runConfig workingBranch =
     (let targetBranch =
            or_default
              (case workingBranchConfig w runConfig of
                 None \<Rightarrow> None
               | Some c \<Rightarrow> bc_targetBranch c)
              ''main''
      in
      io_bind (ask (w_bool w) (LocalBranchExists targetBranch)) (\<lambda>targetBranchExists.
        if targetBranchExists then
          io_catch (discard (run w (''git merge '' @ targetBranch @ '' --ff-only'')))
            (\<lambda>error.
               if message_includes error ''Not possible to fast-forward'' then
                 io_catch
                   (io_seq
                      (run w (''git merge '' @ targetBranch @ '' -m '' @ dq @ ''Merge ''
                         @ targetBranch @ '' into '' @ workingBranch @ '' for sync'' @ dq))
                      (installAndCommit w ''chore: update dependencies after merge''))
                   (\<lambda>mergeError.
                      if message_includes mergeError ''CONFLICT'' then
                        io_throw (new_Error (''Merge conflicts detected when merging ''
                          @ targetBranch @ '' into '' @ workingBranch
                          @ ''. Please resolve conflicts manually.''))
                      else io_throw mergeError)
               else io_return ())
        else io_return ()))"

text \<open>Step 3: the latest changes of the branch \<open>development\<close>, if it exists locally.\<close>

definition mergeLatestDevelopment :: "world \<Rightarrow> bool \<Rightarrow> string \<Rightarrow> unit io" where
  "mergeLatestDevelopment w mergedDevelopmentIntoWorking workingBranch =
     io_bind (ask (w_bool w) (LocalBranchExists ''development'')) (\<lambda>developmentBranchExists.
       if mergedDevelopmentIntoWorking then io_return ()
       else if developmentBranchExists then
         io_catch
           (io_seq
              (run w (''git merge development --no-ff -m '' @ dq
                 @ ''Merge latest development changes into '' @ workingBranch @ dq))
              (installAndCommit w ''chore: update package-lock.json after merge''))
           (\<lambda>error.
              if message_includes error ''CONFLICT'' then
                io_throw (new_Error (''Merge conflicts detected when merging development into ''
                  @ workingBranch @ ''. Please resolve conflicts manually.''))
              else io_throw error)
       else io_return ())"

text \<open>
  Step 5: the check for a development version; \<open>True\<close> stands for the \<open>return\<close> with
  the message of a run that has nothing to do.
\<close>

definition alreadyDevelopmentVersion :: "world \<Rightarrow> string \<Rightarrow> bool io" where
  "alreadyDevelopmentVersion w prereleaseTag =
     io_catch
       (io_bind (ask (w_text w) (FsReadFile ''package.json'')) (\<lambda>contents.
        io_bind (lift (JSON_parse w contents)) (\<lambda>packageJson.
        io_bind (lift (property packageJson ''version'')) (\<lambda>currentVersion.
          lift (js_includes currentVersion (''-'' @ prereleaseTag @ ''.''))))))
       (\<lambda>error. io_return False)"

text \<open>Step 5.5: the working branch is tagged with a release version before the bump.\<close>

definition tagWorkingBranch :: "world \<Rightarrow> config \<Rightarrow> unit io" where
  "tagWorkingBranch w runConfig =
     (if d_tagWorkingBranch runConfig \<noteq> Some False then
        io_catch
          (io_bind (ask (w_text w) (FsReadFile ''package.json'')) (\<lambda>contents.
           io_bind (lift (JSON_parse w contents)) (\<lambda>packageJson.
           io_bind (lift (property packageJson ''version'')) (\<lambda>currentVersion.
           io_bind
             (if \<not> truthy currentVersion then io_return False
              else
                io_bind (lift (js_includes currentVersion ''-dev.'')) (\<lambda>dev.
                  if dev then io_return False
                  else io_bind (lift (js_includes currentVersion ''-alpha.'')) (\<lambda>alpha.
                  if alpha then io_return False
                  else io_bind (lift (js_includes currentVersion ''-beta.'')) (\<lambda>beta.
                  if beta then io_return False
                  else io_bind (lift (js_includes currentVersion ''-rc.'')) (\<lambda>rc.
                    io_return (\<not> rc))))))
             (\<lambda>isReleaseVersion.
                if isReleaseVersion then
                  (let workingTagName = or_default (d_workingTagPrefix runConfig) ''working/''
                         @ ''v'' @ to_String w currentVersion
                   in if \<not> dryRun runConfig then
                        io_bind (run w (''git tag -l '' @ dq @ workingTagName @ dq))
                          (\<lambda>tagExistsResult.
                             if trim tagExistsResult \<noteq> [] then io_return ()
                             else
                               io_seq (run w (''git tag '' @ workingTagName))
                                 (discard (run w (''git push origin '' @ workingTagName))))
                      else io_return ())
                else io_return ())))))
          (\<lambda>error. io_return ())
      else io_return ())"

definition arrivalMessage :: "bool \<Rightarrow> arrival \<Rightarrow> string \<Rightarrow> string" where
  "arrivalMessage mergedDevelopmentIntoWorking arrived other =
     (if mergedDevelopmentIntoWorking then
        ''Merged development into working and ready for development''
      else case arrived of
             BranchCreated \<Rightarrow> ''Created working branch with development version''
           | BranchUpdated \<Rightarrow> ''Updated working branch with development version''
           | AlreadyOnBranch \<Rightarrow> ''Already on working branch with development version''
           | NoSwitch \<Rightarrow> other)"

text \<open>Step 6: the version bump, written to the manifest and committed.\<close>

definition bumpVersion ::
  "world \<Rightarrow> bool \<Rightarrow> string \<Rightarrow> string \<Rightarrow> string \<Rightarrow> bool \<Rightarrow> arrival \<Rightarrow> string io" where
  "bumpVersion w isDryRun workingBranch prereleaseTag incrementLevel mergedDevelopmentIntoWorking
       arrived =
     (if \<not> isDryRun then
        io_catch
          (io_bind (ask (w_text w) (StorageReadFile ''package.json'')) (\<lambda>pkgJsonContents.
           io_bind (lift (parsePackageJson w pkgJsonContents ''package.json'')) (\<lambda>validatedPkgJson.
           let currentVersion = get_member validatedPkgJson ''version'' in
           io_bind
             (if incrementLevel \<in> set [''patch'', ''minor'', ''major''] then
                io_bind (lift (incrementVersion w incrementLevel currentVersion)) (\<lambda>baseVersion.
                  io_return (baseVersion @ ''-'' @ prereleaseTag @ ''.0''))
              else io_return (strip_v incrementLevel @ ''-'' @ prereleaseTag @ ''.0''))
             (\<lambda>newVersion.
           io_seq
             (ask (w_text w) (StorageWriteFile ''package.json''
                (JSON_pretty w (JObj (set_member validatedPkgJson ''version'' (JStr newVersion)))
                 @ [newline])))
          (io_seq (run w ''git add package.json'')
          (io_seq (run w (''git commit -m '' @ dq @ ''chore: bump to '' @ newVersion @ dq))
             (io_return
                (arrivalMessage mergedDevelopmentIntoWorking arrived
                   (''Ready for development on '' @ workingBranch @ '' with version ''
                    @ newVersion)))))))))
          (\<lambda>error.
             io_throw (new_Error (''Failed to bump '' @ incrementLevel @ '' version: ''
               @ message error)))
      else
        io_return
          (arrivalMessage mergedDevelopmentIntoWorking arrived
             (''Ready for development on '' @ workingBranch @ '' (dry run)'')))"

text \<open>Steps 1 to 4.5: everything before the check for a development version.\<close>

definition prepareWorkingBranch ::
  "world \<Rightarrow> config \<Rightarrow> string \<Rightarrow> (bool \<times> arrival) io" where
  "prepareWorkingBranch w runConfig currentBranch =
     (let isDryRun = dryRun runConfig;
          workingBranch = workingBranchOf w runConfig
      in
      io_seq
        (if \<not> isDryRun then
           io_catch (discard (run w ''git fetch origin'')) (\<lambda>error. io_return ())
         else io_return ())
     (io_bind (mergeFromDevelopmentBranch w isDryRun currentBranch workingBranch)
        (\<lambda>mergedDevelopmentIntoWorking.
      io_bind
        (switchToWorkingBranch w isDryRun mergedDevelopmentIntoWorking currentBranch workingBranch)
        (\<lambda>arrived.
      io_seq (if \<not> isDryRun then syncWorkingWithRemote w workingBranch else io_return ())
     (io_seq (if \<not> isDryRun then syncWorkingWithTarget w runConfig workingBranch else io_return ())
     (io_seq
        (if \<not> isDryRun then mergeLatestDevelopment w mergedDevelopmentIntoWorking workingBranch
         else io_return ())
     (io_seq
        (if d_createRetroactiveTags runConfig then
           createRetroactiveTags w workingBranch isDryRun
             (or_default (d_workingTagPrefix runConfig) ''working/'')
         else io_return ())
        (io_return (mergedDevelopmentIntoWorking, arrived)))))))))"

text \<open>Steps 5 to 6, given the flags the earlier steps have set.\<close>

definition finishDevelopment ::
  "world \<Rightarrow> config \<Rightarrow> string \<Rightarrow> string \<Rightarrow> bool \<Rightarrow> arrival \<Rightarrow> string io" where
  "finishDevelopment w runConfig prereleaseTag incrementLevel mergedDevelopmentIntoWorking arrived =
     io_bind
       (if arrived = AlreadyOnBranch \<and> \<not> mergedDevelopmentIntoWorking then
          alreadyDevelopmentVersion w prereleaseTag
        else io_return False)
       (\<lambda>nothingToDo.
          if nothingToDo then io_return ''Already on working branch with development version''
          else
            io_seq (tagWorkingBranch w runConfig)
              (bumpVersion w (dryRun runConfig) (workingBranchOf w runConfig) prereleaseTag
                 incrementLevel mergedDevelopmentIntoWorking arrived))"

definition development_execute :: "world \<Rightarrow> config \<Rightarrow> string io" where
  "development_execute w runConfig =
     io_bind
       (if dryRun runConfig then io_return ''mock-branch'' else ask (w_text w) GetCurrentBranch)
       (\<lambda>currentBranch.
     io_bind (lift (versionStrategy w runConfig)) (\<lambda>strategy.
     io_bind (prepareWorkingBranch w runConfig currentBranch) (\<lambda>prepared.
       finishDevelopment w runConfig (fst strategy) (snd strategy) (fst prepared) (snd prepared))))"

section \<open>Reading results, and example worlds\<close>


definition necessary_true :: "error + necessity \<Rightarrow> bool" where
  "necessary_true r = (case r of Inl e \<Rightarrow> False | Inr n \<Rightarrow> necessary n)"

text \<open>A serialiser for the examples.\<close>

fun example_stringify :: "json \<Rightarrow> string" where
  "example_stringify JNull = ''null''"
| "example_stringify (JBool b) = (if b then ''true'' else ''false'')"
| "example_stringify (JNum r) = ''0''"
| "example_stringify (JStr s) = dq @ s @ dq"
| "example_stringify (JArr xs) = ''['' @ concat (map (\<lambda>x. example_stringify x @ '','') xs) @ '']''"
| "example_stringify (JObj kvs) =
     ''{'' @ concat (map (\<lambda>kv. dq @ fst kv @ dq @ '':'' @ example_stringify (snd kv) @ '','') kvs)
     @ ''}''"

text \<open>
  A world in which every call succeeds with an empty answer: no branch exists, nothing
  is staged, no pull request is open, and the package version computed is \<open>1.0.1\<close>.
\<close>

definition quiet_world :: world where
  "quiet_world =
     \<lparr>w_text = (\<lambda>h c. Inr []),
      w_bool = (\<lambda>h c. Inr False),
      w_opt = (\<lambda>h c. Inr None),
      w_list = (\<lambda>h c. Inr []),
      w_pr = (\<lambda>h c. Inr None),
      w_sync_status =
        (\<lambda>h c. Inr \<lparr>inSync = True, sync_error = None, localSha = None, remoteSha = None\<rparr>),
      w_sync_result =
        (\<lambda>h c. Inr \<lparr>success = True, conflictResolutionRequired = False, sr_error = None\<rparr>),
      w_agentic = (\<lambda>h c. Inr \<lparr>ar_success = False, requiresManualIntervention = True\<rparr>),
      w_version = (\<lambda>h c. Inr (''1.0.1'', ''main'')),
      w_summary = (\<lambda>h c. Inr \<lparr>title = ''Release'', body = ''Notes''\<rparr>),
      parsePackageJson = (\<lambda>s ctx. Inr []),
      safeJsonParse = (\<lambda>s ctx. Inr (JObj [])),
      JSON_parse = (\<lambda>s. Inr (JObj [])),
      JSON_stringify = example_stringify,
      JSON_pretty = example_stringify,
      to_String = (\<lambda>v. case v of Some (JStr s) \<Rightarrow> s | _ \<Rightarrow> ''undefined''),
      calculateTargetVersion = (\<lambda>v t. Inr ''1.0.1''),
      incrementVersion = (\<lambda>l v. Inr ''1.0.1''),
      validateGitRef = (\<lambda>r. True),
      filterContent = (\<lambda>s. s),
      findDevelopmentBranch = (\<lambda>bs. None),
      regex_test = (\<lambda>p s. False),
      regex_match = (\<lambda>p s. None),
      process_env = (\<lambda>v. None),
      timestamp = ''T'',
      DEFAULT_OUTPUT_DIRECTORY = ''output/kodrdriv'',
      DEFAULT_TO_COMMIT_ALIAS = ''HEAD'',
      default_checksTimeout = 3600000,
      default_releaseWorkflowsTimeout = 1800000,
      default_branches = None\<rparr>"

definition quiet_config :: config where
  "quiet_config =
     \<lparr>dryRun = False, branches = None, outputDirectory = None,
      p_targetBranch = None, p_syncTarget = False, p_updateDeps = None,
      p_dependencyUpdatePatterns = None, p_skipPrePublishMerge = None, p_targetVersion = None,
      p_skipAlreadyPublished = False, p_forceRepublish = False, p_interactive = False,
      p_from = None, p_fromMain = False, p_checksTimeout = None, p_sendit = False,
      p_skipUserConfirmation = False, p_mergeMethod = None, p_noMilestones = False,
      p_waitForReleaseWorkflows = None, p_releaseWorkflowsTimeout = None,
      p_releaseWorkflowNames = None, p_requiredEnvVars = None, p_agenticPublish = False,
      r_currentBranch = None, r_from = None, r_to = None, r_fromMain = False,
      r_interactive = False, r_noMilestones = False, r_contextFiles = None,
      r_selfReflection = False,
      d_targetVersion = None, d_createRetroactiveTags = False, d_workingTagPrefix = None,
      d_tagWorkingBranch = None\<rparr>"

text \<open>Two manifests that differ in the version and in the order of their members only.\<close>

definition manifest_target :: "(string \<times> json) list" where
  "manifest_target =
     [(''name'', JStr ''pkg''), (''version'', JStr ''1.0.0''),
      (''scripts'', JObj [(''prepublishOnly'', JStr ''npm test'')])]"

definition manifest_head :: "(string \<times> json) list" where
  "manifest_head =
     [(''scripts'', JObj [(''prepublishOnly'', JStr ''npm test'')]),
      (''version'', JStr ''1.0.1-dev.0''), (''name'', JStr ''pkg'')]"

text \<open>The working branch differs from \<open>main\<close> in the version of the manifest only.\<close>

definition version_only_world :: world where
  "version_only_world =
     quiet_world
       \<lparr>w_text := (\<lambda>h c.
          if c = GetCurrentBranchName then Inr ''working''
          else if c = RunSecure ''git'' [''diff'', ''--name-only'', ''main..working''] then
            Inr (''package.json'' @ [newline])
          else if c = RunSecure ''git'' [''show'', ''main:package.json''] then Inr ''TARGET''
          else if c = RunSecure ''git'' [''show'', ''working:package.json''] then Inr ''HEAD''
          else Inr []),
        parsePackageJson := (\<lambda>s ctx.
          if s = ''TARGET'' then Inr manifest_target
          else if s = ''HEAD'' then Inr manifest_head
          else Inl (new_Error ''Invalid JSON''))\<rparr>"

text \<open>The same, but the manifest of the working branch does not parse.\<close>

definition malformed_manifest_world :: world where
  "malformed_manifest_world =
     version_only_world
       \<lparr>parsePackageJson := (\<lambda>s ctx.
          if s = ''TARGET'' then Inr manifest_target else Inl (new_Error ''Invalid JSON''))\<rparr>"

text \<open>The target branch does not exist.\<close>

definition first_release_world :: world where
  "first_release_world =
     quiet_world
       \<lparr>w_text := (\<lambda>h c.
          if c = GetCurrentBranchName then Inr ''working''
          else if c = RunSecure ''git'' [''rev-parse'', ''--verify'', ''main''] then
            Inl (Error ''fatal: Needed a single revision'' [] [])
          else Inr [])\<rparr>"

text \<open>The target branch exists and the diff lists no file.\<close>

definition no_diff_world :: world where
  "no_diff_world =
     quiet_world\<lparr>w_text := (\<lambda>h c. if c = GetCurrentBranchName then Inr ''working'' else Inr [])\<rparr>"


text \<open>\<open>execute\<close> from the commit of the version bump on, for a new pull request.\<close>

definition publishAfterVersion :: "world \<Rightarrow> config \<Rightarrow> string \<Rightarrow> string \<Rightarrow> bool \<Rightarrow> unit io" where
  "publishAfterVersion w runConfig currentBranch targetBranch branchDependentVersioning =
     io_bind (openPullRequest w runConfig currentBranch targetBranch)
       (publishFromPullRequest w runConfig currentBranch targetBranch branchDependentVersioning)"

text \<open>
  A run of \<open>execute\<close> outside dry-run mode that arrives at step 4, the version: after the
  history \<open>h\<close> it emits \<open>t\<close>, made of the synchronisation of the current branch, the
  check of the target branch, the prechecks, the necessity evaluation (a release is
  necessary), the lookup of a pull request (none is open), the dependency update and the
  optional merge of the target branch.
\<close>

definition reaches_version_step ::
  "world \<Rightarrow> config \<Rightarrow> event list \<Rightarrow> event list \<Rightarrow> string \<Rightarrow> string \<Rightarrow> bool \<Rightarrow> bool" where
  "reaches_version_step w runConfig h t currentBranch targetBranch branchDependentVersioning =
     (let synced = currentBranchSynced w False h;
          h0 = h @ fst synced;
          ensured = ensureTargetBranch w targetBranch h0;
          h1 = h0 @ fst ensured;
          prechecked = runPrechecks w runConfig targetBranch h1;
          h2 = h1 @ fst prechecked;
          evaluated = releaseNecessityCheck w targetBranch False h2;
          h3 = h2 @ fst evaluated;
          looked_up = lookupPullRequest w False h3;
          h4 = h3 @ fst looked_up;
          updated = updateDependencies w runConfig h4;
          h5 = h4 @ fst updated;
          merged = prePublishMerge w runConfig targetBranch h5
      in \<not> dryRun runConfig \<and> \<not> p_syncTarget runConfig
         \<and> resolveTargetBranch runConfig currentBranch = (targetBranch, branchDependentVersioning)
         \<and> snd synced = Inr currentBranch \<and> snd ensured = Inr () \<and> snd prechecked = Inr ()
         \<and> snd evaluated = Inr False \<and> snd looked_up = Inr None \<and> snd updated = Inr ()
         \<and> snd merged = Inr ()
         \<and> h @ t = h5 @ fst merged)"

text \<open>
  The working branch differs from \<open>main\<close> in the version of the manifest only, and the
  manifest and the branch \<open>main\<close> exist.
\<close>

definition skip_world :: world where
  "skip_world =
     version_only_world
       \<lparr>w_text := (\<lambda>h c.
          if c = StorageReadFile ''package.json'' then Inr ''HEAD''
          else w_text version_only_world h c),
        w_bool := (\<lambda>h c. Inr (c = StorageExists ''package.json'' \<or> c = LocalBranchExists ''main''))\<rparr>"

definition skip_trace :: "event list" where
  "skip_trace =
    [Call GetCurrentBranchName, Call (Run ''git fetch origin''),
     Call (Run ''git ls-remote --exit-code --heads origin working''),
     LockAcquire ''sync working'', Call (Run ''git fetch origin working''),
     Call (Run ''git merge origin/working --no-edit''),
     LockRelease ''sync working'', Call (LocalBranchExists ''main''),
     Call (Run ''git rev-parse --git-dir''),
     Call (Run ''git status --porcelain''), Call GetCurrentBranchName,
     Call (LocalBranchExists ''main''), Call (IsBranchInSyncWithRemote ''main''),
     Call (StorageExists ''package.json''),
     Call (StorageReadFile ''package.json''), Call (StorageExists ''.npmrc''),
     Call GetCurrentBranchName,
     Call (RunSecure ''git'' [''rev-parse'', ''--verify'', ''main'']),
     Call (RunSecure ''git'' [''diff'', ''--name-only'', ''main..working'']),
     Call (RunSecure ''git'' [''show'', ''main:package.json'']),
     Call (RunSecure ''git'' [''show'', ''working:package.json'']),
     Stdout ''KODRDRIV_PUBLISH_SKIPPED'']"

text \<open>
  A repository ready to publish from \<open>working\<close> to \<open>main\<close>: the diff is empty, the
  dependency update stages a change, and the tag \<open>v1.0.1\<close> of the version to come exists.
  The branch \<open>main\<close> has commits of its own, and merging it stops on conflicts in
  \<open>package.json\<close> and \<open>src/index.ts\<close>.
\<close>

definition publish_world :: world where
  "publish_world =
     quiet_world
       \<lparr>w_text := (\<lambda>h c.
          if c = GetCurrentBranchName then Inr ''working''
          else if c = StorageReadFile ''package.json'' then Inr ''HEAD''
          else if c = Run ''git merge-base HEAD main'' then Inr ''1111111''
          else if c = Run ''git rev-parse main'' then Inr ''2222222''
          else if c = Run (''git merge main --no-edit -m '' @ dq
                             @ ''Merge main to sync before version bump'' @ dq) then
            Inl (Error ''Command failed: git merge main''
                   ''CONFLICT (content): Merge conflict in package.json'' [])
          else if c = Run ''git diff --name-only --diff-filter=U'' then
            Inr (''package.json'' @ [newline] @ ''src/index.ts'' @ [newline])
          else Inr []),
        w_bool := (\<lambda>h c. Inr (c \<in> set [StorageExists ''package.json'', LocalBranchExists ''main'',
                                          HasStagedChanges, CheckIfTagExists ''v1.0.1''])),
        parsePackageJson := (\<lambda>s ctx.
          if s = ''HEAD'' then Inr manifest_head else Inl (new_Error ''Invalid JSON''))\<rparr>"

text \<open>
  The same repository; \<open>published\<close> says whether the registry reports \<open>1.0.1\<close>, and
  \<open>remote_down\<close> whether the deletion of the remote tag fails.
\<close>

definition tagged_world :: "bool \<Rightarrow> bool \<Rightarrow> world" where
  "tagged_world published remote_down =
     publish_world
       \<lparr>w_text := (\<lambda>h c.
          if remote_down \<and> c = RunSecure ''git'' [''push'', ''origin'', '':refs/tags/v1.0.1''] then
            Inl (Error ''fatal: unable to access the remote: Could not resolve host'' [] [])
          else w_text publish_world h c),
        w_opt := (\<lambda>h c.
          case c of
            GetNpmPublishedVersion n \<Rightarrow> Inr (if published then Some ''1.0.1'' else None)
          | _ \<Rightarrow> Inr None)\<rparr>"

definition flags_config :: "bool \<Rightarrow> bool \<Rightarrow> config" where
  "flags_config skip force =
     quiet_config\<lparr>p_skipAlreadyPublished := skip, p_forceRepublish := force\<rparr>"

text \<open>What a run in \<open>tagged_world\<close> emits before step 4.\<close>

definition version_step_trace :: "event list" where
  "version_step_trace =
    [Call GetCurrentBranchName, Call (Run ''git fetch origin''),
     Call (Run ''git ls-remote --exit-code --heads origin working''),
     LockAcquire ''sync working'', Call (Run ''git fetch origin working''),
     Call (Run ''git merge origin/working --no-edit''),
     LockRelease ''sync working'', Call (LocalBranchExists ''main''),
     Call (Run ''git rev-parse --git-dir''),
     Call (Run ''git status --porcelain''), Call GetCurrentBranchName,
     Call (LocalBranchExists ''main''),
     Call (IsBranchInSyncWithRemote ''main''),
     Call (StorageExists ''package.json''),
     Call (StorageReadFile ''package.json''), Call (StorageExists ''.npmrc''),
     Call GetCurrentBranchName,
     Call (RunSecure ''git'' [''rev-parse'', ''--verify'', ''main'']),
     Call (RunSecure ''git'' [''diff'', ''--name-only'', ''main..working'']),
     Call GetCurrentBranchName,
     Call (FindOpenPullRequestByHeadRef ''working''),
     Call (FsAccess ''package-lock.json''),
     Call (FsReadFile ''package-lock.json''), Call (Run ''npm update''),
     Call (Run ''npm run prepublishOnly''),
     LockAcquire ''stage dependency updates'',
     Call (Run ''git add package.json''),
     LockRelease ''stage dependency updates'', Call HasStagedChanges,
     LockAcquire ''commit dependency updates'', Call CommitCommit,
     LockRelease ''commit dependency updates'']"

definition registry_checks :: "event list" where
  "registry_checks =
    [Call (StorageReadFile ''package.json''),
     Call (CheckIfTagExists ''v1.0.1''),
     Call (GetNpmPublishedVersion (Some (JStr ''pkg''))),
     Call (GetTagInfo ''v1.0.1'')]"

text \<open>What a forced republication emits after the registry checks.\<close>

definition republish_trace :: "event list" where
  "republish_trace =
    [Call (RunSecure ''git'' [''tag'', ''-d'', ''v1.0.1'']),
     Call (RunSecure ''git'' [''push'', ''origin'', '':refs/tags/v1.0.1'']),
     Call (StorageWriteFile ''package.json''
       (example_stringify (JObj (set_member manifest_head ''version'' (JStr ''1.0.1'')))
        @ [newline])),
     LockAcquire ''stage version bump'', Call (Run ''git add package.json''),
     LockRelease ''stage version bump'', Call HasStagedChanges,
     LockAcquire ''commit version bump'', Call CommitCommit,
     LockRelease ''commit version bump'',
     Call (GetDefaultFromRef False ''working''), Call (LogCreate [] ''HEAD''),
     Call (DiffCreate [] ''HEAD''), Call DiffGet, Call LogGet,
     Call (StorageReadFile ''package.json''),
     Call (StorageEnsureDirectory ''output/kodrdriv''),
     Call (RunAgenticRelease [] ''HEAD''),
     Call (StorageWriteFile ''output/kodrdriv/release-notes-T.md''
       (''# Release'' @ [newline, newline] @ ''Notes'')),
     Call (StorageEnsureDirectory ''output/kodrdriv''),
     Call (StorageWriteFile ''output/kodrdriv/RELEASE_NOTES.md'' ''Notes''),
     Call (StorageWriteFile ''output/kodrdriv/RELEASE_TITLE.md'' ''Release''),
     Call GetCurrentBranchName, LockAcquire ''push working'',
     Call (Run ''git push origin working''), LockRelease ''push working'',
     Call (Run ''git log -1 --pretty=%B''),
     Call (CreatePullRequest [] ''Automated release PR.'' ''working'' ''main'')]"


text \<open>A pull request is open for the branch \<open>working\<close>.\<close>

definition open_pr_world :: world where
  "open_pr_world =
     publish_world
       \<lparr>w_pr := (\<lambda>h c.
          if c = FindOpenPullRequestByHeadRef ''working'' then
            Inr (Some \<lparr>pr_number = 7, html_url = ''https://github.com/org/pkg/pull/7''\<rparr>)
          else Inr None)\<rparr>"

text \<open>
  For the resolution of merge conflicts: commands run one after the other, the first
  failure ends the sequence; and the commands that resolve the conflicted manifest files
  and complete the merge.
\<close>

fun runAll :: "world \<Rightarrow> string list \<Rightarrow> unit io" where
  "runAll w [] = io_return ()"
| "runAll w (cmd # rest) = io_seq (run w cmd) (runAll w rest)"

definition resolution_commands :: "string list \<Rightarrow> string \<Rightarrow> string list" where
  "resolution_commands conflicts targetBranch =
     concat (map (\<lambda>file. [''git checkout --ours '' @ file, ''git add '' @ file]) conflicts)
     @ [''git commit --no-edit -m '' @ dq @ ''Merge '' @ targetBranch
          @ '' to sync before version bump (auto-resolved version conflicts)'' @ dq]"


text \<open>
  A run of \<open>execute\<close> outside dry-run mode, with the pre-publish merge switched on, that
  arrives at the merge of the target branch: after the history \<open>h\<close> it emits \<open>t\<close>, made of
  every step up to the dependency update, the lock of the merge, the fetch of the target
  branch, and the two commands that find the merge is needed.
\<close>

definition reaches_merge_step ::
  "world \<Rightarrow> config \<Rightarrow> event list \<Rightarrow> event list \<Rightarrow> string \<Rightarrow> string \<Rightarrow> bool \<Rightarrow> bool" where
  "reaches_merge_step w runConfig h t currentBranch targetBranch branchDependentVersioning =
     (let synced = currentBranchSynced w False h;
          h0 = h @ fst synced;
          ensured = ensureTargetBranch w targetBranch h0;
          h1 = h0 @ fst ensured;
          prechecked = runPrechecks w runConfig targetBranch h1;
          h2 = h1 @ fst prechecked;
          evaluated = releaseNecessityCheck w targetBranch False h2;
          h3 = h2 @ fst evaluated;
          looked_up = lookupPullRequest w False h3;
          h4 = h3 @ fst looked_up;
          updated = updateDependencies w runConfig h4;
          merge_base = Run (''git merge-base HEAD '' @ targetBranch);
          rev_parse = Run (''git rev-parse '' @ targetBranch);
          h5 = h4 @ fst updated
                 @ [LockAcquire (''merge '' @ targetBranch @ '' into current branch''),
                    Call (Run (''git fetch origin '' @ targetBranch @ '':'' @ targetBranch))];
          h6 = h5 @ [Call merge_base]
      in \<not> dryRun runConfig \<and> \<not> p_syncTarget runConfig
         \<and> p_skipPrePublishMerge runConfig = Some False
         \<and> resolveTargetBranch runConfig currentBranch = (targetBranch, branchDependentVersioning)
         \<and> snd synced = Inr currentBranch \<and> snd ensured = Inr () \<and> snd prechecked = Inr ()
         \<and> snd evaluated = Inr False \<and> snd looked_up = Inr None \<and> snd updated = Inr ()
         \<and> (case w_text w h5 merge_base of
               Inl e \<Rightarrow> False
             | Inr mergeBase \<Rightarrow>
                 (case w_text w h6 rev_parse of
                    Inl e \<Rightarrow> False
                  | Inr targetCommit \<Rightarrow> trim mergeBase \<noteq> trim targetCommit))
         \<and> h @ t = h6 @ [Call rev_parse])"

text \<open>A merge of \<open>main\<close> that stops on a conflict in the manifest only.\<close>

definition manifest_conflict_world :: world where
  "manifest_conflict_world =
     quiet_world
       \<lparr>w_text := (\<lambda>h c.
          if c = Run (''git merge main --no-edit -m '' @ dq
                        @ ''Merge main to sync before version bump'' @ dq) then
            Inl (Error ''Command failed: git merge main''
                   ''CONFLICT (content): Merge conflict in package.json'' [])
          else if c = Run ''git diff --name-only --diff-filter=U'' then
            Inr (''package.json'' @ [newline])
          else Inr [])\<rparr>"

text \<open>A publish run with the merge of the target branch switched on.\<close>

definition merge_config :: config where
  "merge_config = (flags_config False False)\<lparr>p_skipPrePublishMerge := Some False\<rparr>"

definition merge_step_trace :: "event list" where
  "merge_step_trace =
     version_step_trace
     @ [LockAcquire ''merge main into current branch'',
        Call (Run ''git fetch origin main:main''),
        Call (Run ''git merge-base HEAD main''),
        Call (Run ''git rev-parse main'')]"

definition merge_command :: call where
  "merge_command =
     Run (''git merge main --no-edit -m '' @ dq @ ''Merge main to sync before version bump'' @ dq)"

text \<open>
  After a squash merge the remote working branch holds a commit that the target branch
  lacks: the ancestry check fails, and so does a fast-forward.
\<close>

definition diverged_world :: world where
  "diverged_world =
     quiet_world
       \<lparr>w_text := (\<lambda>h c.
          if c = Run ''git merge-base --is-ancestor origin/working main'' then
            Inl (Error ''Command failed: git merge-base --is-ancestor origin/working main'' [] [])
          else if c = RunSecure ''git'' [''merge'', ''main'', ''--ff-only''] then
            Inl (Error ''fatal: Not possible to fast-forward, aborting.'' [] [])
          else Inr [])\<rparr>"








text \<open>
  The development command is run on the branch \<open>working\<close>, whose manifest holds a
  development version; \<open>diverged\<close> says whether \<open>main\<close> cannot be fast-forwarded into
  it.
\<close>

definition dev_world :: "bool \<Rightarrow> world" where
  "dev_world diverged =
     quiet_world
       \<lparr>w_text := (\<lambda>h c.
          if c = GetCurrentBranch then Inr ''working''
          else if c = Run ''git merge main --ff-only'' \<and> diverged then
            Inl (Error ''fatal: Not possible to fast-forward, aborting.'' [] [])
          else if c = Run ''git status --porcelain'' then Inr '' M package-lock.json''
          else if c = FsReadFile ''package.json'' then Inr ''DEV''
          else Inr []),
        w_bool := (\<lambda>h c. Inr (c \<in> set [LocalBranchExists ''working'', LocalBranchExists ''main''])),
        JSON_parse := (\<lambda>s. if s = ''DEV'' then Inr (JObj [(''version'', JStr ''1.0.1-dev.0'')])
                            else Inl (new_Error ''Unexpected token''))\<rparr>"

definition dev_sync_trace :: "bool \<Rightarrow> event list" where
  "dev_sync_trace diverged =
     [Call (Run ''git fetch origin''), Call (LocalBranchExists ''working''),
      Call (Run ''git ls-remote --exit-code --heads origin working''),
      Call (Run ''git fetch origin working''),
      Call (Run ''git merge origin/working --no-edit''),
      Call (LocalBranchExists ''main''),
      Call (Run ''git merge main --ff-only'')]
     @ (if diverged then
          [Call (Run (''git merge main -m '' @ dq @ ''Merge main into working for sync'' @ dq)),
           Call (Run ''npm install''), Call (Run ''git status --porcelain''),
           Call (Run ''git add -A''),
           Call (Run (''git commit -m '' @ dq @ ''chore: update dependencies after merge'' @ dq))]
        else [])
     @ [Call (LocalBranchExists ''development'')]"

section \<open>Properties\<close>

lemmas io_defs =
  io_bind_def io_seq_def io_catch_def io_return_def io_throw_def emit_def ask_def succeeds_def
  lift_def run_def runSecure_def discard_def

lemmas example_defs =
  quiet_world_def quiet_config_def version_only_world_def malformed_manifest_world_def
  first_release_world_def manifest_target_def manifest_head_def no_diff_world_def

lemmas string_defs =
  changedFiles_of_def conflicts_of_def filter_Boolean_def trim_def is_ws_def newline_def dq_def
  quoted_def bullet_def or_default_def

subsection \<open>The release-necessity evaluator\<close>



lemmas io_defs2 = io_defs runGitWithLock_def runWithDryRunSupport_def

lemmas world_defs = tagged_world_def publish_world_def flags_config_def example_defs

lemma io_seq_trace: "\<exists>t. fst (io_seq m k h) = fst (m h) @ t"
  by (simp add: io_seq_def io_bind_def split: prod.splits sum.splits)

lemma io_bind_trace: "\<exists>t. fst (io_bind m f h) = fst (m h) @ t"
  by (simp add: io_bind_def split: prod.splits sum.splits)

subsection \<open>The skip of an unnecessary release\<close>

text \<open>
  Claim C2. Let \<open>execute\<close> of the publish command reach the necessity evaluation: the
  current branch is found and synchronised, the target branch is in place, the prechecks
  pass. If the evaluation returns necessary = false, \<open>execute\<close> returns without an
  error, the last event of the run is the line \<open>KODRDRIV_PUBLISH_SKIPPED\<close> on standard
  output, and nothing follows the evaluation but that line: no commit, tag, push, pull
  request or release.
\<close>

theorem unnecessary_release_is_skipped:
  fixes w :: world and cfg :: config and h :: "event list"
  defines "tb \<equiv> \<lambda>cb. fst (resolveTargetBranch cfg cb)"
  assumes branch: "currentBranchSynced w (dryRun cfg) h = (t0, Inr cb)"
    and no_sync_target: "\<not> p_syncTarget cfg"
    and target: "(if dryRun cfg then io_return () else ensureTargetBranch w (tb cb)) (h @ t0)
                   = (t1, Inr ())"
    and prechecks: "runPrechecks w cfg (tb cb) (h @ t0 @ t1) = (t2, Inr ())"
    and evaluated: "isReleaseNecessaryComparedToTarget w (tb cb) (dryRun cfg) (h @ t0 @ t1 @ t2)
                      = (t3, Inr n)"
    and unnecessary: "\<not> necessary n"
  shows "execute w cfg h = (t0 @ t1 @ t2 @ t3 @ [Stdout ''KODRDRIV_PUBLISH_SKIPPED''], Inr ())"
  using assms
  by (simp add: execute_def releaseNecessityCheck_def io_defs Let_def split: if_splits)

theorem unnecessary_release_is_skipped_witness:
  "execute skip_world quiet_config [] = (skip_trace, Inr ())"
proof -
  have A: "currentBranchSynced skip_world (dryRun quiet_config) [] =
    ([Call GetCurrentBranchName, Call (Run ''git fetch origin''),
      Call (Run ''git ls-remote --exit-code --heads origin working''),
      LockAcquire ''sync working'', Call (Run ''git fetch origin working''),
      Call (Run ''git merge origin/working --no-edit''),
      LockRelease ''sync working''], Inr ''working'')"
    by (simp add: currentBranchSynced_def syncCurrentBranch_def io_defs2 skip_world_def example_defs)
  have T: "fst (resolveTargetBranch quiet_config ''working'') = ''main''"
    by (simp add: resolveTargetBranch_def branchConfigOf_def quiet_config_def or_default_def)
  have B: "\<not> p_syncTarget quiet_config"
    by (simp add: quiet_config_def)
  have C: "\<And>h. (if dryRun quiet_config then io_return () else ensureTargetBranch skip_world ''main'') h
            = ([Call (LocalBranchExists ''main'')], Inr ())"
    by (simp add: ensureTargetBranch_def io_defs2 skip_world_def example_defs)
  have D: "\<And>h. runPrechecks skip_world quiet_config ''main'' h =
    ([Call (Run ''git rev-parse --git-dir''),
      Call (Run ''git status --porcelain''), Call GetCurrentBranchName,
      Call (LocalBranchExists ''main''), Call (IsBranchInSyncWithRemote ''main''),
      Call (StorageExists ''package.json''),
      Call (StorageReadFile ''package.json''), Call (StorageExists ''.npmrc'')], Inr ())"
    by (simp add: runPrechecks_def precheckBranchSync_def precheckPackageJson_def
        scanNpmrcForEnvVars_def has_prepublishOnly_def get_member_def dedupe_def
        io_defs2 skip_world_def example_defs string_defs Let_def)
  obtain n where E: "\<And>h. isReleaseNecessaryComparedToTarget skip_world ''main'' (dryRun quiet_config) h =
    ([Call GetCurrentBranchName,
      Call (RunSecure ''git'' [''rev-parse'', ''--verify'', ''main'']),
      Call (RunSecure ''git'' [''diff'', ''--name-only'', ''main..working'']),
      Call (RunSecure ''git'' [''show'', ''main:package.json'']),
      Call (RunSecure ''git'' [''show'', ''working:package.json''])], Inr n)" and F: "\<not> necessary n"
    by (simp add: isReleaseNecessaryComparedToTarget_def comparePackageJson_def io_defs2
        skip_world_def example_defs string_defs without_version_def Let_def)
  show ?thesis
    using unnecessary_release_is_skipped
      [where w = skip_world and cfg = quiet_config and h = "[]" and cb = "''working''",
        OF A[simplified] B, unfolded T, OF C D E F]
    by (simp add: skip_trace_def)
qed

subsection \<open>A tag that exists for the proposed version\<close>

text \<open>The steps before step 4, one equation for each.\<close>

lemma reaches_version_step_phases:
  "reaches_version_step w runConfig h t currentBranch targetBranch branchDependentVersioning =
     (\<not> dryRun runConfig \<and> \<not> p_syncTarget runConfig
      \<and> resolveTargetBranch runConfig currentBranch = (targetBranch, branchDependentVersioning)
      \<and> (\<exists>t0 t1 t2 t3 t4 t5 t6.
            t = t0 @ t1 @ t2 @ t3 @ t4 @ t5 @ t6
            \<and> currentBranchSynced w False h = (t0, Inr currentBranch)
            \<and> ensureTargetBranch w targetBranch (h @ t0) = (t1, Inr ())
            \<and> runPrechecks w runConfig targetBranch (h @ t0 @ t1) = (t2, Inr ())
            \<and> releaseNecessityCheck w targetBranch False (h @ t0 @ t1 @ t2) = (t3, Inr False)
            \<and> lookupPullRequest w False (h @ t0 @ t1 @ t2 @ t3) = (t4, Inr None)
            \<and> updateDependencies w runConfig (h @ t0 @ t1 @ t2 @ t3 @ t4) = (t5, Inr ())
            \<and> prePublishMerge w runConfig targetBranch (h @ t0 @ t1 @ t2 @ t3 @ t4 @ t5)
                = (t6, Inr ())))"
proof
  assume "reaches_version_step w runConfig h t currentBranch targetBranch branchDependentVersioning"
  then show "\<not> dryRun runConfig \<and> \<not> p_syncTarget runConfig
      \<and> resolveTargetBranch runConfig currentBranch = (targetBranch, branchDependentVersioning)
      \<and> (\<exists>t0 t1 t2 t3 t4 t5 t6.
            t = t0 @ t1 @ t2 @ t3 @ t4 @ t5 @ t6
            \<and> currentBranchSynced w False h = (t0, Inr currentBranch)
            \<and> ensureTargetBranch w targetBranch (h @ t0) = (t1, Inr ())
            \<and> runPrechecks w runConfig targetBranch (h @ t0 @ t1) = (t2, Inr ())
            \<and> releaseNecessityCheck w targetBranch False (h @ t0 @ t1 @ t2) = (t3, Inr False)
            \<and> lookupPullRequest w False (h @ t0 @ t1 @ t2 @ t3) = (t4, Inr None)
            \<and> updateDependencies w runConfig (h @ t0 @ t1 @ t2 @ t3 @ t4) = (t5, Inr ())
            \<and> prePublishMerge w runConfig targetBranch (h @ t0 @ t1 @ t2 @ t3 @ t4 @ t5)
                = (t6, Inr ()))"
    unfolding reaches_version_step_def Let_def
    apply (elim conjE)
    apply (intro conjI)
       apply assumption+
    apply (rule exI[of _ "fst (currentBranchSynced w False h)"])
    apply (intro exI)
    apply (simp add: prod_eq_iff)
    done
next
  assume "\<not> dryRun runConfig \<and> \<not> p_syncTarget runConfig
      \<and> resolveTargetBranch runConfig currentBranch = (targetBranch, branchDependentVersioning)
      \<and> (\<exists>t0 t1 t2 t3 t4 t5 t6.
            t = t0 @ t1 @ t2 @ t3 @ t4 @ t5 @ t6
            \<and> currentBranchSynced w False h = (t0, Inr currentBranch)
            \<and> ensureTargetBranch w targetBranch (h @ t0) = (t1, Inr ())
            \<and> runPrechecks w runConfig targetBranch (h @ t0 @ t1) = (t2, Inr ())
            \<and> releaseNecessityCheck w targetBranch False (h @ t0 @ t1 @ t2) = (t3, Inr False)
            \<and> lookupPullRequest w False (h @ t0 @ t1 @ t2 @ t3) = (t4, Inr None)
            \<and> updateDependencies w runConfig (h @ t0 @ t1 @ t2 @ t3 @ t4) = (t5, Inr ())
            \<and> prePublishMerge w runConfig targetBranch (h @ t0 @ t1 @ t2 @ t3 @ t4 @ t5)
                = (t6, Inr ()))"
  then show "reaches_version_step w runConfig h t currentBranch targetBranch branchDependentVersioning"
    unfolding reaches_version_step_def Let_def by auto
qed

lemma execute_at_version_step:
  assumes "reaches_version_step w cfg h t cb tb bdv"
  shows "execute w cfg h =
     (case determineVersion w cfg cb tb bdv (h @ t) of
        (t', Inl e) \<Rightarrow> (t @ t', Inl e)
      | (t', Inr Return) \<Rightarrow> (t @ t', Inr ())
      | (t', Inr (Continue (v, tb'))) \<Rightarrow>
          (t @ t' @ fst (publishAfterVersion w cfg cb tb' bdv (h @ t @ t')),
           snd (publishAfterVersion w cfg cb tb' bdv (h @ t @ t'))))"
  using assms
  unfolding reaches_version_step_phases
  apply (elim conjE exE)
  apply (simp add: execute_def publishRelease_def createPullRequestPath_def publishAfterVersion_def
      io_bind_def io_seq_def io_return_def Let_def
      split: prod.splits sum.splits flow.splits)
  done

lemma proposeVersion_trace:
  "fst (proposeVersion w cfg cv cb tb bdv h) = []
   \<or> fst (proposeVersion w cfg cv cb tb bdv h) = [Call (CalculateBranchDependentVersion cv cb tb)]"
  by (simp add: proposeVersion_def io_defs split: sum.splits)

text \<open>Step 4 when the tag of the proposed version exists.\<close>

lemma determineVersion_tag_exists:
  assumes manifest: "w_text w h (StorageReadFile ''package.json'') = Inr contents"
    and parsed: "parsePackageJson w contents ''package.json'' = Inr pkg"
    and proposed: "proposeVersion w cfg (get_member pkg ''version'') cb tb bdv
                     (h @ [Call (StorageReadFile ''package.json'')]) = (tp, Inr (v, tb'))"
    and tag_exists: "w_bool w (h @ [Call (StorageReadFile ''package.json'')] @ tp)
                       (CheckIfTagExists (''v'' @ v)) = Inr True"
  shows "determineVersion w cfg cb tb bdv h =
     (let before = [Call (StorageReadFile ''package.json'')] @ tp @ [Call (CheckIfTagExists (''v'' @ v))];
          handled = handleExistingTag w cfg (get_member pkg ''name'') v (h @ before)
      in case handled of
           (t, Inl e) \<Rightarrow> (before @ t, Inl e)
         | (t, Inr Return) \<Rightarrow> (before @ t, Inr Return)
         | (t, Inr (Continue u)) \<Rightarrow>
             (case io_bind (confirmVersion w cfg pkg v) (\<lambda>newVersion.
                     io_seq
                       (ask (w_text w) (StorageWriteFile ''package.json''
                          (JSON_pretty w (JObj (set_member pkg ''version'' (JStr newVersion)))
                           @ [newline])))
                       (io_return (Continue (newVersion, tb')))) (h @ before @ t) of
                (t', r) \<Rightarrow> (before @ t @ t', r)))"
  using assms
  by (simp add: determineVersion_def io_bind_def io_seq_def io_return_def ask_def lift_def Let_def
      split: prod.splits sum.splits flow.splits)

text \<open>The example repository up to step 4, and step 4 in it.\<close>

lemma tagged_world_phases:
  fixes p d
  defines "w \<equiv> tagged_world p d"
  shows "currentBranchSynced w False [] =
      ([Call GetCurrentBranchName, Call (Run ''git fetch origin''),
        Call (Run ''git ls-remote --exit-code --heads origin working''),
        LockAcquire ''sync working'', Call (Run ''git fetch origin working''),
        Call (Run ''git merge origin/working --no-edit''),
        LockRelease ''sync working''], Inr ''working'')"
    and "ensureTargetBranch w ''main'' h1 = ([Call (LocalBranchExists ''main'')], Inr ())"
    and "releaseNecessityCheck w ''main'' False h3 =
      ([Call GetCurrentBranchName,
        Call (RunSecure ''git'' [''rev-parse'', ''--verify'', ''main'']),
        Call (RunSecure ''git'' [''diff'', ''--name-only'', ''main..working''])], Inr False)"
    and "lookupPullRequest w False h4 =
      ([Call GetCurrentBranchName, Call (FindOpenPullRequestByHeadRef ''working'')], Inr None)"
  unfolding w_def
  subgoal by (simp add: currentBranchSynced_def syncCurrentBranch_def io_defs2 world_defs)
  subgoal by (simp add: ensureTargetBranch_def io_defs2 world_defs)
  subgoal
    by (simp add: releaseNecessityCheck_def isReleaseNecessaryComparedToTarget_def
        io_defs2 world_defs string_defs Let_def)
  subgoal by (simp add: lookupPullRequest_def io_defs2 world_defs)
  done

lemma tagged_world_config_phases:
  fixes p d s f m
  defines "w \<equiv> tagged_world p d"
  defines "c \<equiv> (flags_config s f)\<lparr>p_skipPrePublishMerge := m\<rparr>"
  shows "\<not> dryRun c" and "\<not> p_syncTarget c"
    and "resolveTargetBranch c ''working'' = (''main'', False)"
    and "runPrechecks w c ''main'' h2 =
      ([Call (Run ''git rev-parse --git-dir''),
        Call (Run ''git status --porcelain''), Call GetCurrentBranchName,
        Call (LocalBranchExists ''main''), Call (IsBranchInSyncWithRemote ''main''),
        Call (StorageExists ''package.json''),
        Call (StorageReadFile ''package.json''), Call (StorageExists ''.npmrc'')], Inr ())"
    and "updateDependencies w c h5 =
      ([Call (FsAccess ''package-lock.json''),
        Call (FsReadFile ''package-lock.json''), Call (Run ''npm update''),
        Call (Run ''npm run prepublishOnly''),
        LockAcquire ''stage dependency updates'',
        Call (Run ''git add package.json''),
        LockRelease ''stage dependency updates'', Call HasStagedChanges,
        LockAcquire ''commit dependency updates'', Call CommitCommit,
        LockRelease ''commit dependency updates''], Inr ())"
  unfolding w_def c_def
  subgoal by (simp add: world_defs)
  subgoal by (simp add: world_defs)
  subgoal by (simp add: resolveTargetBranch_def branchConfigOf_def world_defs or_default_def)
  subgoal
    by (simp add: runPrechecks_def precheckBranchSync_def precheckPackageJson_def
        scanNpmrcForEnvVars_def has_prepublishOnly_def get_member_def dedupe_def
        io_defs2 world_defs string_defs Let_def)
  subgoal
    by (simp add: updateDependencies_def cleanupNpmLinkReferences_def commitIfStaged_def
        hasFileReferences_def get_member_def
        io_defs2 world_defs string_defs Let_def)
  done

lemma flags_config_no_merge:
  "(flags_config s f)\<lparr>p_skipPrePublishMerge := None\<rparr> = flags_config s f"
  by (simp add: flags_config_def quiet_config_def)

lemma tagged_world_reaches_version_step:
  "reaches_version_step (tagged_world p d) (flags_config s f) [] version_step_trace
     ''working'' ''main'' False"
proof -
  note phases = tagged_world_phases[where p = p and d = d]
    tagged_world_config_phases[where m = None, unfolded flags_config_no_merge]
  have skipped: "\<And>h. prePublishMerge (tagged_world p d) (flags_config s f) ''main'' h = ([], Inr ())"
    by (simp add: prePublishMerge_def io_defs2 world_defs)
  show ?thesis
    unfolding reaches_version_step_phases
    apply (intro conjI phases(5,6,7))
    apply (rule exI[of _ "fst (currentBranchSynced (tagged_world p d) False [])"])
    apply (rule exI[of _ "[Call (LocalBranchExists ''main'')]"])
    apply (rule exI[of _ "fst (runPrechecks (tagged_world p d) (flags_config s f) ''main'' [])"])
    apply (rule exI[of _ "fst (releaseNecessityCheck (tagged_world p d) ''main'' False [])"])
    apply (rule exI[of _ "fst (lookupPullRequest (tagged_world p d) False [])"])
    apply (rule exI[of _ "fst (updateDependencies (tagged_world p d) (flags_config s f) [])"])
    apply (rule exI[of _ "[]"])
    apply (simp add: phases skipped version_step_trace_def)
    done
qed

lemma tagged_world_manifest:
  "w_text (tagged_world p d) h (StorageReadFile ''package.json'') = Inr ''HEAD''"
  "parsePackageJson (tagged_world p d) ''HEAD'' ''package.json'' = Inr manifest_head"
  "proposeVersion (tagged_world p d) (flags_config s f) (get_member manifest_head ''version'')
     ''working'' ''main'' False h = ([], Inr (''1.0.1'', ''main''))"
  "w_bool (tagged_world p d) h (CheckIfTagExists (''v'' @ ''1.0.1'')) = Inr True"
  "w_opt (tagged_world p d) h (GetTagInfo (''v'' @ ''1.0.1'')) = Inr None"
  by (simp_all add: world_defs proposeVersion_def io_defs or_default_def get_member_def)

lemma tagged_world_registry:
  "w_opt (tagged_world True d) h (GetNpmPublishedVersion (get_member manifest_head ''name''))
     = Inr (Some ''1.0.1'')"
  "w_opt (tagged_world False d) h (GetNpmPublishedVersion (get_member manifest_head ''name''))
     = Inr None"
  by (simp_all add: world_defs get_member_def)


lemma tagged_world_existing_tag:
  "handleExistingTag (tagged_world p d) (flags_config s f) (get_member manifest_head ''name'')
     ''1.0.1'' h =
     (if p then
        (if s then (drop 2 registry_checks @ [Stdout ''KODRDRIV_PUBLISH_SKIPPED''], Inr Return)
         else (drop 2 registry_checks,
               Inl (new_Error
                 ''Version 1.0.1 already published. Use --skip-already-published to continue.'')))
      else if f then (drop 2 registry_checks @ take 2 republish_trace, Inr (Continue ()))
      else (drop 2 registry_checks,
            Inl (new_Error ''Tag v1.0.1 already exists. Use --force-republish to override.'')))"
  apply (cases p)
   apply (simp_all add: handleExistingTag_def deleteExistingTag_def
      registry_checks_def republish_trace_def io_defs Let_def world_defs
      get_member_def)
  done

lemma tagged_world_write:
  "w_text (tagged_world p d) h (StorageWriteFile path contents) = Inr []"
  "JSON_pretty (tagged_world p d) = example_stringify"
  "\<not> p_interactive (flags_config s f)"
  by (simp_all add: world_defs)

lemma tagged_world_version_step:
  "determineVersion (tagged_world p d) (flags_config s f) ''working'' ''main'' False h =
     (if p then
        (if s then (registry_checks @ [Stdout ''KODRDRIV_PUBLISH_SKIPPED''], Inr Return)
         else (registry_checks,
               Inl (new_Error
                 ''Version 1.0.1 already published. Use --skip-already-published to continue.'')))
      else if f then (registry_checks @ take 3 republish_trace, Inr (Continue (''1.0.1'', ''main'')))
      else (registry_checks,
            Inl (new_Error ''Tag v1.0.1 already exists. Use --force-republish to override.'')))"
  by (simp add: determineVersion_tag_exists[OF tagged_world_manifest(1-4)]
      tagged_world_existing_tag tagged_world_write confirmVersion_def
      registry_checks_def republish_trace_def io_bind_def io_seq_def io_return_def ask_def Let_def)

text \<open>
  Claim C3, as the code has it. Let a run outside dry-run mode reach step 4 after the
  events \<open>t\<close>, let the version proposed there be \<open>v\<close>, let the tag of that version (\<open>v\<close> followed by the version) exist and let
  the registry report \<open>v\<close> as the published version. Then the run reads the manifest,
  proposes the version, checks the tag, asks the registry and reads the tag, and ends:
  with the skip flag it returns without an error after printing
  \<open>KODRDRIV_PUBLISH_SKIPPED\<close>; without it, it fails with the duplicate-version error.
  Between the arrival at step 4 and that outcome no tag or branch is touched. The events
  \<open>t\<close> before step 4 are not constrained: they hold the merge of the remote branch and
  the commit of the dependency update.
\<close>

theorem duplicate_version_outcome:
  fixes w :: world and cfg :: config
  defines "read_manifest \<equiv> Call (StorageReadFile ''package.json'')"
  assumes reached: "reaches_version_step w cfg h t cb tb bdv"
    and manifest: "w_text w (h @ t) (StorageReadFile ''package.json'') = Inr contents"
    and parsed: "parsePackageJson w contents ''package.json'' = Inr pkg"
    and proposed: "proposeVersion w cfg (get_member pkg ''version'') cb tb bdv
                     (h @ t @ [read_manifest]) = (tp, Inr (v, tb'))"
    and tag_exists: "w_bool w (h @ t @ [read_manifest] @ tp) (CheckIfTagExists (''v'' @ v)) = Inr True"
    and registry: "w_opt w (h @ t @ [read_manifest] @ tp @ [Call (CheckIfTagExists (''v'' @ v))])
                     (GetNpmPublishedVersion (get_member pkg ''name'')) = Inr (Some v)"
    and tag_info: "w_opt w (h @ t @ [read_manifest] @ tp @ [Call (CheckIfTagExists (''v'' @ v)),
                       Call (GetNpmPublishedVersion (get_member pkg ''name''))])
                     (GetTagInfo (''v'' @ v)) = Inr info"
  defines "checks \<equiv> [read_manifest] @ tp @ [Call (CheckIfTagExists (''v'' @ v)),
                       Call (GetNpmPublishedVersion (get_member pkg ''name'')),
                       Call (GetTagInfo (''v'' @ v))]"
  shows "execute w cfg h =
           (if p_skipAlreadyPublished cfg then
              (t @ checks @ [Stdout ''KODRDRIV_PUBLISH_SKIPPED''], Inr ())
            else
              (t @ checks,
               Inl (new_Error (''Version '' @ v
                  @ '' already published. Use --skip-already-published to continue.''))))
       \<and> (tp = [] \<or> tp = [Call (CalculateBranchDependentVersion (get_member pkg ''version'') cb tb)])"
proof
  have step: "handleExistingTag w cfg (get_member pkg ''name'') v
          (h @ t @ [read_manifest] @ tp @ [Call (CheckIfTagExists (''v'' @ v))])
         = (if p_skipAlreadyPublished cfg then
              ([Call (GetNpmPublishedVersion (get_member pkg ''name'')), Call (GetTagInfo (''v'' @ v)),
                Stdout ''KODRDRIV_PUBLISH_SKIPPED''], Inr Return)
            else
              ([Call (GetNpmPublishedVersion (get_member pkg ''name'')), Call (GetTagInfo (''v'' @ v))],
               Inl (new_Error (''Version '' @ v
                  @ '' already published. Use --skip-already-published to continue.''))))"
    using registry tag_info
    by (simp add: handleExistingTag_def io_bind_def io_seq_def io_return_def io_throw_def ask_def
        emit_def Let_def)
  show "execute w cfg h =
           (if p_skipAlreadyPublished cfg then
              (t @ checks @ [Stdout ''KODRDRIV_PUBLISH_SKIPPED''], Inr ())
            else
              (t @ checks,
               Inl (new_Error (''Version '' @ v
                  @ '' already published. Use --skip-already-published to continue.''))))"
    using determineVersion_tag_exists[of w "h @ t" contents pkg cfg cb tb bdv tp v tb']
      manifest parsed proposed tag_exists step
    by (simp add: execute_at_version_step[OF reached] read_manifest_def checks_def Let_def)
  show "tp = [] \<or> tp = [Call (CalculateBranchDependentVersion (get_member pkg ''version'') cb tb)]"
    using proposeVersion_trace[of w cfg "get_member pkg ''version''" cb tb bdv "h @ t @ [read_manifest]"]
      proposed by simp
qed

theorem duplicate_version_outcome_witness:
  "execute (tagged_world True False) (flags_config True False) [] =
     (version_step_trace @ registry_checks @ [Stdout ''KODRDRIV_PUBLISH_SKIPPED''], Inr ())
   \<and> execute (tagged_world True False) (flags_config False False) [] =
     (version_step_trace @ registry_checks,
      Inl (new_Error ''Version 1.0.1 already published. Use --skip-already-published to continue.''))"
proof -
  have skip: "p_skipAlreadyPublished (flags_config True False)"
    and no_skip: "\<not> p_skipAlreadyPublished (flags_config False False)"
    by (simp_all add: flags_config_def)
  have name: "get_member manifest_head ''name'' = Some (JStr ''pkg'')"
    by (simp add: manifest_head_def get_member_def)
  show ?thesis
    using duplicate_version_outcome[OF tagged_world_reaches_version_step[of True False True False]
        tagged_world_manifest(1,2,3,4) tagged_world_registry(1) tagged_world_manifest(5)]
      duplicate_version_outcome[OF tagged_world_reaches_version_step[of True False False False]
        tagged_world_manifest(1,2,3,4) tagged_world_registry(1) tagged_world_manifest(5)]
    by (simp add: registry_checks_def skip no_skip name)
qed

text \<open>
  The run that ends with the duplicate-version error has merged the remote branch into
  the working branch and committed the dependency update before.
\<close>

theorem duplicate_version_after_branch_commit:
  "execute (tagged_world True False) (flags_config False False) [] =
     (version_step_trace @ registry_checks,
      Inl (new_Error ''Version 1.0.1 already published. Use --skip-already-published to continue.''))
   \<and> Call (Run ''git merge origin/working --no-edit'') \<in> set version_step_trace
   \<and> Call CommitCommit \<in> set version_step_trace"
proof (intro conjI)
  show "execute (tagged_world True False) (flags_config False False) [] =
     (version_step_trace @ registry_checks,
      Inl (new_Error ''Version 1.0.1 already published. Use --skip-already-published to continue.''))"
    by (simp add: execute_at_version_step[OF tagged_world_reaches_version_step]
        tagged_world_version_step)
qed (simp_all add: version_step_trace_def)




subsection \<open>The creation of the release record\<close>









subsection \<open>An open pull request\<close>

lemma waitForChecks_trace:
  "\<not> dryRun cfg \<Longrightarrow>
   fst (waitForChecks w cfg pr h)
     = [Call (WaitForPullRequestChecks (pr_number pr)
               (num_or_default (p_checksTimeout cfg) (default_checksTimeout w))
               (p_sendit cfg \<or> p_skipUserConfirmation cfg))]"
  by (simp add: waitForChecks_def io_defs Let_def split: sum.splits)

lemma publishFromPullRequest_starts:
  "\<exists>t. fst (publishFromPullRequest w cfg cb tb bdv pr h) = fst (waitForChecks w cfg pr h) @ t"
  unfolding publishFromPullRequest_def Let_def by (rule io_seq_trace)

text \<open>
  Claim C7. Outside dry-run mode the lookup asks for the name of the current branch and
  then for the open pull request whose head is that branch. When it finds one,
  \<open>execute\<close> from the lookup on emits the two events of the lookup and then what
  \<open>publishFromPullRequest\<close> emits for the pull request found, nothing in between: no
  dependency update, no prepublish script, no version bump, no push, no creation of a
  pull request. The first event of \<open>publishFromPullRequest\<close> is the wait for the checks
  of that pull request.
\<close>

theorem open_pull_request_resumes_at_checks:
  fixes w :: world and cfg :: config and h :: "event list"
  assumes live: "\<not> dryRun cfg"
    and name: "w_text w h GetCurrentBranchName = Inr branchName"
    and found: "w_pr w (h @ [Call GetCurrentBranchName]) (FindOpenPullRequestByHeadRef branchName)
                  = Inr (Some pr)"
  shows "lookupPullRequest w (dryRun cfg) h
           = ([Call GetCurrentBranchName, Call (FindOpenPullRequestByHeadRef branchName)],
              Inr (Some pr))
       \<and> publishRelease w cfg cb tb bdv h
           = (let lookup = [Call GetCurrentBranchName,
                            Call (FindOpenPullRequestByHeadRef branchName)];
                  rest = publishFromPullRequest w cfg cb tb bdv pr (h @ lookup)
              in (lookup @ fst rest, snd rest))
       \<and> (\<exists>t. fst (publishFromPullRequest w cfg cb tb bdv pr
                      (h @ [Call GetCurrentBranchName,
                            Call (FindOpenPullRequestByHeadRef branchName)]))
              = Call (WaitForPullRequestChecks (pr_number pr)
                        (num_or_default (p_checksTimeout cfg) (default_checksTimeout w))
                        (p_sendit cfg \<or> p_skipUserConfirmation cfg)) # t)"
proof (intro conjI)
  show "lookupPullRequest w (dryRun cfg) h
           = ([Call GetCurrentBranchName, Call (FindOpenPullRequestByHeadRef branchName)],
              Inr (Some pr))"
    using assms by (simp add: lookupPullRequest_def io_defs)
  then show "publishRelease w cfg cb tb bdv h
           = (let lookup = [Call GetCurrentBranchName,
                            Call (FindOpenPullRequestByHeadRef branchName)];
                  rest = publishFromPullRequest w cfg cb tb bdv pr (h @ lookup)
              in (lookup @ fst rest, snd rest))"
    by (simp add: publishRelease_def io_bind_def io_return_def Let_def split: prod.splits)
  show "\<exists>t. fst (publishFromPullRequest w cfg cb tb bdv pr
                      (h @ [Call GetCurrentBranchName,
                            Call (FindOpenPullRequestByHeadRef branchName)]))
              = Call (WaitForPullRequestChecks (pr_number pr)
                        (num_or_default (p_checksTimeout cfg) (default_checksTimeout w))
                        (p_sendit cfg \<or> p_skipUserConfirmation cfg)) # t"
    using publishFromPullRequest_starts[of w cfg cb tb bdv pr
        "h @ [Call GetCurrentBranchName, Call (FindOpenPullRequestByHeadRef branchName)]"]
      waitForChecks_trace[OF live, of w pr]
    by simp
qed

theorem open_pull_request_resumes_at_checks_witness:
  "lookupPullRequest open_pr_world False [] =
     ([Call GetCurrentBranchName, Call (FindOpenPullRequestByHeadRef ''working'')],
      Inr (Some \<lparr>pr_number = 7, html_url = ''https://github.com/org/pkg/pull/7''\<rparr>))
   \<and> take 3 (fst (publishRelease open_pr_world quiet_config ''working'' ''main'' False []))
     = [Call GetCurrentBranchName, Call (FindOpenPullRequestByHeadRef ''working''),
        Call (WaitForPullRequestChecks 7 3600000 False)]"
proof -
  have live: "\<not> dryRun quiet_config"
    by (simp add: quiet_config_def)
  have name: "w_text open_pr_world [] GetCurrentBranchName = Inr ''working''"
    by (simp add: open_pr_world_def publish_world_def)
  have found: "w_pr open_pr_world ([] @ [Call GetCurrentBranchName])
      (FindOpenPullRequestByHeadRef ''working'')
      = Inr (Some \<lparr>pr_number = 7, html_url = ''https://github.com/org/pkg/pull/7''\<rparr>)"
    by (simp add: open_pr_world_def publish_world_def)
  have t: "num_or_default (p_checksTimeout quiet_config) (default_checksTimeout open_pr_world)
      = 3600000" "\<not> p_sendit quiet_config" "\<not> p_skipUserConfirmation quiet_config"
    by (simp_all add: num_or_default_def quiet_config_def open_pr_world_def publish_world_def
        quiet_world_def)
  show ?thesis
    using open_pull_request_resumes_at_checks[OF live name found, of "''working''" "''main''" False]
    by (auto simp add: t live Let_def)
qed

subsection \<open>Conflicts in the merge before the version bump\<close>

lemma io_seq_assoc: "io_seq (io_seq a b) c = io_seq a (io_seq b c)"
  by (simp add: io_seq_def io_bind_def fun_eq_iff split: prod.splits sum.splits)

lemma io_seq_return: "io_seq (io_return x) k = k"
  by (simp add: io_seq_def io_bind_def io_return_def fun_eq_iff)

lemma runAll_append: "runAll w (xs @ ys) = io_seq (runAll w xs) (runAll w ys)"
  by (induction xs) (simp_all add: io_seq_return io_seq_assoc)

lemma discard_run: "discard (run w cmd) = runAll w [cmd]"
  by (simp add: discard_def io_seq_def)

lemma resolveConflicts_runAll:
  "\<forall>f \<in> set conflicts. f = ''package.json'' \<Longrightarrow>
   resolveConflicts w conflicts =
     runAll w (concat (map (\<lambda>file. [''git checkout --ours '' @ file, ''git add '' @ file]) conflicts))"
  by (induction conflicts) (simp_all add: versionFiles_def)

lemma autoResolveConflicts_runAll:
  "autoResolveConflicts w tb =
     io_bind (run w ''git diff --name-only --diff-filter=U'') (\<lambda>conflictedFiles.
       if \<exists>f \<in> set (conflicts_of conflictedFiles). f \<noteq> ''package.json'' then
         io_throw (new_Error ''Merge conflicts in non-version files. Please resolve manually.'')
       else runAll w (resolution_commands (conflicts_of conflictedFiles) tb))"
proof -
  have "(if length (filter (\<lambda>f. f \<notin> set versionFiles) (conflicts_of out)) > 0 then
           io_throw (new_Error ''Merge conflicts in non-version files. Please resolve manually.'')
         else
           io_seq (resolveConflicts w (conflicts_of out))
             (discard (run w (''git commit --no-edit -m '' @ dq @ ''Merge '' @ tb
                @ '' to sync before version bump (auto-resolved version conflicts)'' @ dq))))
        = (if \<exists>f \<in> set (conflicts_of out). f \<noteq> ''package.json'' then
             io_throw (new_Error ''Merge conflicts in non-version files. Please resolve manually.'')
           else runAll w (resolution_commands (conflicts_of out) tb))" for out
  proof (cases "\<exists>f \<in> set (conflicts_of out). f \<noteq> ''package.json''")
    case True
    then have "filter (\<lambda>f. f \<notin> set versionFiles) (conflicts_of out) \<noteq> []"
      by (auto simp add: versionFiles_def filter_empty_conv)
    then show ?thesis
      using True by simp
  next
    case False
    then have all: "\<forall>f \<in> set (conflicts_of out). f = ''package.json''"
      by simp
    then have none: "filter (\<lambda>f. f \<notin> set versionFiles) (conflicts_of out) = []"
      by (auto simp add: versionFiles_def filter_empty_conv)
    show ?thesis
      using False
      by (simp add: none resolveConflicts_runAll[OF all] discard_run resolution_commands_def
          runAll_append del: runAll.simps)
  qed
  then show ?thesis
    unfolding autoResolveConflicts_def Let_def by simp
qed


lemma ignored_failure:
  "io_catch (discard (run w cmd)) (\<lambda>error. io_return ()) = (\<lambda>h. ([Call (Run cmd)], Inr ()))"
  by (simp add: io_catch_def discard_def io_bind_def io_return_def run_def ask_def fun_eq_iff
      split: sum.splits)

lemma run_apply: "run w cmd h = ([Call (Run cmd)], w_text w h (Run cmd))"
  by (simp add: run_def ask_def)

lemma prePublishMerge_merge_failure:
  fixes w :: world and cfg :: config and tb :: string and h :: "event list"
  defines "before \<equiv> [LockAcquire (''merge '' @ tb @ '' into current branch''),
                       Call (Run (''git fetch origin '' @ tb @ '':'' @ tb))]"
  defines "merge_base \<equiv> Run (''git merge-base HEAD '' @ tb)"
  defines "rev_parse \<equiv> Run (''git rev-parse '' @ tb)"
  assumes "p_skipPrePublishMerge cfg = Some False" and "\<not> dryRun cfg"
    and "w_text w (h @ before) merge_base = Inr mergeBase"
    and "w_text w (h @ before @ [Call merge_base]) rev_parse = Inr targetCommit"
    and "trim mergeBase \<noteq> trim targetCommit"
    and "mergeTargetIntoCurrent w tb (h @ before @ [Call merge_base, Call rev_parse]) = (t', Inl e)"
  shows "prePublishMerge w cfg tb h =
           (before @ [Call merge_base, Call rev_parse] @ t'
              @ [LockRelease (''merge '' @ tb @ '' into current branch'')], Inl e)"
  using assms(4-)
  unfolding assms(1-3)
  by (simp add: prePublishMerge_def runGitWithLock_def run_apply ignored_failure
      io_bind_def io_seq_def Let_def)

lemma execute_fails_in_merge:
  assumes "\<not> dryRun cfg" and "\<not> p_syncTarget cfg"
    and "resolveTargetBranch cfg cb = (tb, bdv)"
    and "currentBranchSynced w False h = (t0, Inr cb)"
    and "ensureTargetBranch w tb (h @ t0) = (t1, Inr ())"
    and "runPrechecks w cfg tb (h @ t0 @ t1) = (t2, Inr ())"
    and "releaseNecessityCheck w tb False (h @ t0 @ t1 @ t2) = (t3, Inr False)"
    and "lookupPullRequest w False (h @ t0 @ t1 @ t2 @ t3) = (t4, Inr None)"
    and "updateDependencies w cfg (h @ t0 @ t1 @ t2 @ t3 @ t4) = (t5, Inr ())"
    and "prePublishMerge w cfg tb (h @ t0 @ t1 @ t2 @ t3 @ t4 @ t5) = (t6, Inl e)"
  shows "execute w cfg h = (t0 @ t1 @ t2 @ t3 @ t4 @ t5 @ t6, Inl e)"
  using assms
  by (simp add: execute_def publishRelease_def createPullRequestPath_def
      io_bind_def io_seq_def io_return_def Let_def)

text \<open>The steps before the merge, one equation for each.\<close>

lemma reaches_merge_step_phases:
  "reaches_merge_step w runConfig h t currentBranch targetBranch branchDependentVersioning =
     (\<not> dryRun runConfig \<and> \<not> p_syncTarget runConfig
      \<and> p_skipPrePublishMerge runConfig = Some False
      \<and> resolveTargetBranch runConfig currentBranch = (targetBranch, branchDependentVersioning)
      \<and> (\<exists>mergeBase targetCommit t0 t1 t2 t3 t4 t5.
            let before = t0 @ t1 @ t2 @ t3 @ t4 @ t5
                  @ [LockAcquire (''merge '' @ targetBranch @ '' into current branch''),
                     Call (Run (''git fetch origin '' @ targetBranch @ '':'' @ targetBranch))];
                merge_base = Run (''git merge-base HEAD '' @ targetBranch);
                rev_parse = Run (''git rev-parse '' @ targetBranch)
            in
            t = before @ [Call merge_base, Call rev_parse]
            \<and> currentBranchSynced w False h = (t0, Inr currentBranch)
            \<and> ensureTargetBranch w targetBranch (h @ t0) = (t1, Inr ())
            \<and> runPrechecks w runConfig targetBranch (h @ t0 @ t1) = (t2, Inr ())
            \<and> releaseNecessityCheck w targetBranch False (h @ t0 @ t1 @ t2) = (t3, Inr False)
            \<and> lookupPullRequest w False (h @ t0 @ t1 @ t2 @ t3) = (t4, Inr None)
            \<and> updateDependencies w runConfig (h @ t0 @ t1 @ t2 @ t3 @ t4) = (t5, Inr ())
            \<and> w_text w (h @ before) merge_base = Inr mergeBase
            \<and> w_text w (h @ before @ [Call merge_base]) rev_parse = Inr targetCommit
            \<and> trim mergeBase \<noteq> trim targetCommit))"
proof
  assume "reaches_merge_step w runConfig h t currentBranch targetBranch branchDependentVersioning"
  then show "(\<not> dryRun runConfig \<and> \<not> p_syncTarget runConfig
      \<and> p_skipPrePublishMerge runConfig = Some False
      \<and> resolveTargetBranch runConfig currentBranch = (targetBranch, branchDependentVersioning)
      \<and> (\<exists>mergeBase targetCommit t0 t1 t2 t3 t4 t5.
            let before = t0 @ t1 @ t2 @ t3 @ t4 @ t5
                  @ [LockAcquire (''merge '' @ targetBranch @ '' into current branch''),
                     Call (Run (''git fetch origin '' @ targetBranch @ '':'' @ targetBranch))];
                merge_base = Run (''git merge-base HEAD '' @ targetBranch);
                rev_parse = Run (''git rev-parse '' @ targetBranch)
            in
            t = before @ [Call merge_base, Call rev_parse]
            \<and> currentBranchSynced w False h = (t0, Inr currentBranch)
            \<and> ensureTargetBranch w targetBranch (h @ t0) = (t1, Inr ())
            \<and> runPrechecks w runConfig targetBranch (h @ t0 @ t1) = (t2, Inr ())
            \<and> releaseNecessityCheck w targetBranch False (h @ t0 @ t1 @ t2) = (t3, Inr False)
            \<and> lookupPullRequest w False (h @ t0 @ t1 @ t2 @ t3) = (t4, Inr None)
            \<and> updateDependencies w runConfig (h @ t0 @ t1 @ t2 @ t3 @ t4) = (t5, Inr ())
            \<and> w_text w (h @ before) merge_base = Inr mergeBase
            \<and> w_text w (h @ before @ [Call merge_base]) rev_parse = Inr targetCommit
            \<and> trim mergeBase \<noteq> trim targetCommit))"
    unfolding reaches_merge_step_def Let_def
    apply (clarsimp split: sum.splits)
    subgoal for mergeBase targetCommit
      apply (rule exI[of _ mergeBase])
      apply (rule exI[of _ targetCommit])
      apply (rule exI[of _ "fst (currentBranchSynced w False h)"])
      apply (intro exI)
      apply (simp add: prod_eq_iff)
      done
    done
next
  assume "(\<not> dryRun runConfig \<and> \<not> p_syncTarget runConfig
      \<and> p_skipPrePublishMerge runConfig = Some False
      \<and> resolveTargetBranch runConfig currentBranch = (targetBranch, branchDependentVersioning)
      \<and> (\<exists>mergeBase targetCommit t0 t1 t2 t3 t4 t5.
            let before = t0 @ t1 @ t2 @ t3 @ t4 @ t5
                  @ [LockAcquire (''merge '' @ targetBranch @ '' into current branch''),
                     Call (Run (''git fetch origin '' @ targetBranch @ '':'' @ targetBranch))];
                merge_base = Run (''git merge-base HEAD '' @ targetBranch);
                rev_parse = Run (''git rev-parse '' @ targetBranch)
            in
            t = before @ [Call merge_base, Call rev_parse]
            \<and> currentBranchSynced w False h = (t0, Inr currentBranch)
            \<and> ensureTargetBranch w targetBranch (h @ t0) = (t1, Inr ())
            \<and> runPrechecks w runConfig targetBranch (h @ t0 @ t1) = (t2, Inr ())
            \<and> releaseNecessityCheck w targetBranch False (h @ t0 @ t1 @ t2) = (t3, Inr False)
            \<and> lookupPullRequest w False (h @ t0 @ t1 @ t2 @ t3) = (t4, Inr None)
            \<and> updateDependencies w runConfig (h @ t0 @ t1 @ t2 @ t3 @ t4) = (t5, Inr ())
            \<and> w_text w (h @ before) merge_base = Inr mergeBase
            \<and> w_text w (h @ before @ [Call merge_base]) rev_parse = Inr targetCommit
            \<and> trim mergeBase \<noteq> trim targetCommit))"
  then show "reaches_merge_step w runConfig h t currentBranch targetBranch branchDependentVersioning"
    unfolding reaches_merge_step_def Let_def by auto
qed

lemma execute_merge_failure:
  assumes reached: "reaches_merge_step w cfg h t cb tb bdv"
    and failed: "mergeTargetIntoCurrent w tb (h @ t) = (t', Inl e)"
  shows "execute w cfg h =
           (t @ t' @ [LockRelease (''merge '' @ tb @ '' into current branch'')], Inl e)"
proof -
  define before where "before = [LockAcquire (''merge '' @ tb @ '' into current branch''),
                       Call (Run (''git fetch origin '' @ tb @ '':'' @ tb))]"
  define merge_base where "merge_base = Run (''git merge-base HEAD '' @ tb)"
  define rev_parse where "rev_parse = Run (''git rev-parse '' @ tb)"
  from reached obtain t0 t1 t2 t3 t4 t5 mergeBase targetCommit where
    live: "\<not> dryRun cfg" "\<not> p_syncTarget cfg" and on: "p_skipPrePublishMerge cfg = Some False"
    and target: "resolveTargetBranch cfg cb = (tb, bdv)"
    and t: "t = t0 @ t1 @ t2 @ t3 @ t4 @ t5 @ before @ [Call merge_base, Call rev_parse]"
    and phases: "currentBranchSynced w False h = (t0, Inr cb)"
      "ensureTargetBranch w tb (h @ t0) = (t1, Inr ())"
      "runPrechecks w cfg tb (h @ t0 @ t1) = (t2, Inr ())"
      "releaseNecessityCheck w tb False (h @ t0 @ t1 @ t2) = (t3, Inr False)"
      "lookupPullRequest w False (h @ t0 @ t1 @ t2 @ t3) = (t4, Inr None)"
      "updateDependencies w cfg (h @ t0 @ t1 @ t2 @ t3 @ t4) = (t5, Inr ())"
    and mb: "w_text w (h @ t0 @ t1 @ t2 @ t3 @ t4 @ t5 @ before) merge_base = Inr mergeBase"
    and rp: "w_text w (h @ t0 @ t1 @ t2 @ t3 @ t4 @ t5 @ before @ [Call merge_base]) rev_parse
               = Inr targetCommit"
    and differ: "trim mergeBase \<noteq> trim targetCommit"
    unfolding reaches_merge_step_phases Let_def before_def merge_base_def rev_parse_def
    by auto
  have "prePublishMerge w cfg tb (h @ t0 @ t1 @ t2 @ t3 @ t4 @ t5) =
           (before @ [Call merge_base, Call rev_parse] @ t'
              @ [LockRelease (''merge '' @ tb @ '' into current branch'')], Inl e)"
    unfolding before_def merge_base_def rev_parse_def
    apply (rule prePublishMerge_merge_failure[OF on live(1) _ _ differ])
    using mb rp failed t
    by (simp_all add: before_def merge_base_def rev_parse_def)
  from execute_fails_in_merge[OF live target phases this] show ?thesis
    by (simp add: t)
qed

text \<open>
  Claim C6. Let the merge of the target branch into the current branch fail with an
  error whose text holds \<open>CONFLICT\<close>, and let \<open>git diff --name-only --diff-filter=U\<close>
  list the conflicted files. (1) If a listed file is not \<open>package.json\<close>, the merge step
  fails with the error that asks for a manual resolution, and no file is checked out or
  staged and nothing is committed. (2) If every listed file is \<open>package.json\<close>, the step
  runs, for each listed file in turn, \<open>git checkout --ours\<close> and \<open>git add\<close>, then the
  commit that completes the merge, and reports the merge as done; a command that fails
  ends the step with its error. (3) In case (1) a run of \<open>execute\<close> that has reached the
  merge ends there with that error, after releasing the lock of the merge.
\<close>

theorem merge_conflict_resolution:
  fixes w :: world and tb :: string and h :: "event list"
  defines "merge \<equiv> Run (''git merge '' @ tb @ '' --no-edit -m '' @ dq @ ''Merge '' @ tb
                          @ '' to sync before version bump'' @ dq)"
  defines "listing \<equiv> Run ''git diff --name-only --diff-filter=U''"
  assumes failed: "w_text w h merge = Inl e"
    and conflict: "str_includes (errorText e) ''CONFLICT''"
    and listed: "w_text w (h @ [Call merge]) listing = Inr out"
  shows "((\<exists>f \<in> set (conflicts_of out). f \<noteq> ''package.json'') \<longrightarrow>
            mergeTargetIntoCurrent w tb h =
              ([Call merge, Call listing],
               Inl (new_Error ''Merge conflicts in non-version files. Please resolve manually.'')))
       \<and> ((\<forall>f \<in> set (conflicts_of out). f = ''package.json'') \<longrightarrow>
            mergeTargetIntoCurrent w tb h =
              (case runAll w (resolution_commands (conflicts_of out) tb)
                      (h @ [Call merge, Call listing]) of
                 (t, Inl e') \<Rightarrow> ([Call merge, Call listing] @ t, Inl e')
               | (t, Inr u) \<Rightarrow> ([Call merge, Call listing] @ t, Inr True)))
       \<and> ((\<exists>f \<in> set (conflicts_of out). f \<noteq> ''package.json'')
            \<and> reaches_merge_step w cfg h0 t0 cb tb bdv \<and> h = h0 @ t0 \<longrightarrow>
            execute w cfg h0 =
              (t0 @ [Call merge, Call listing,
                     LockRelease (''merge '' @ tb @ '' into current branch'')],
               Inl (new_Error ''Merge conflicts in non-version files. Please resolve manually.'')))"
proof -
  have first: "(\<exists>f \<in> set (conflicts_of out). f \<noteq> ''package.json'') \<Longrightarrow>
            mergeTargetIntoCurrent w tb h =
              ([Call merge, Call listing],
               Inl (new_Error ''Merge conflicts in non-version files. Please resolve manually.''))"
    using failed conflict listed
    unfolding merge_def listing_def
    by (auto simp add: mergeTargetIntoCurrent_def autoResolveConflicts_runAll
        io_bind_def io_seq_def io_catch_def io_return_def io_throw_def ask_def run_def
        split: prod.splits sum.splits)
  have second: "(\<forall>f \<in> set (conflicts_of out). f = ''package.json'') \<Longrightarrow>
            mergeTargetIntoCurrent w tb h =
              (case runAll w (resolution_commands (conflicts_of out) tb)
                      (h @ [Call merge, Call listing]) of
                 (t, Inl e') \<Rightarrow> ([Call merge, Call listing] @ t, Inl e')
               | (t, Inr u) \<Rightarrow> ([Call merge, Call listing] @ t, Inr True))"
    using failed conflict listed
    unfolding merge_def listing_def
    by (auto simp add: mergeTargetIntoCurrent_def autoResolveConflicts_runAll
        io_bind_def io_seq_def io_catch_def io_return_def io_throw_def ask_def run_def
        split: prod.splits sum.splits)
  have third: "execute w cfg h0 =
              (t0 @ [Call merge, Call listing,
                     LockRelease (''merge '' @ tb @ '' into current branch'')],
               Inl (new_Error ''Merge conflicts in non-version files. Please resolve manually.''))"
    if "\<exists>f \<in> set (conflicts_of out). f \<noteq> ''package.json''"
      and "reaches_merge_step w cfg h0 t0 cb tb bdv" and "h = h0 @ t0"
    using execute_merge_failure[OF that(2), of "[Call merge, Call listing]"
        "new_Error ''Merge conflicts in non-version files. Please resolve manually.''"]
      first[OF that(1)] that(3)
    by simp
  show ?thesis
    using first second third by blast
qed


lemma tagged_world_reaches_merge_step:
  "reaches_merge_step (tagged_world p d) merge_config [] merge_step_trace ''working'' ''main'' False"
proof -
  note phases = tagged_world_phases[where p = p and d = d]
    tagged_world_config_phases[where s = False and f = False and m = "Some False",
      folded merge_config_def]
  have on: "p_skipPrePublishMerge merge_config = Some False"
    by (simp add: merge_config_def)
  have answers: "\<And>h. w_text (tagged_world p d) h (Run (''git merge-base HEAD '' @ ''main'')) = Inr ''1111111''"
    "\<And>h. w_text (tagged_world p d) h (Run (''git rev-parse '' @ ''main'')) = Inr ''2222222''"
    "trim ''1111111'' \<noteq> trim ''2222222''"
    by (simp_all add: world_defs string_defs)
  show ?thesis
    unfolding reaches_merge_step_phases Let_def
    apply (intro conjI phases(5,6,7) on)
    apply (rule exI[of _ "''1111111''"])
    apply (rule exI[of _ "''2222222''"])
    apply (rule exI[of _ "fst (currentBranchSynced (tagged_world p d) False [])"])
    apply (rule exI[of _ "[Call (LocalBranchExists ''main'')]"])
    apply (rule exI[of _ "fst (runPrechecks (tagged_world p d) merge_config ''main'' [])"])
    apply (rule exI[of _ "fst (releaseNecessityCheck (tagged_world p d) ''main'' False [])"])
    apply (rule exI[of _ "fst (lookupPullRequest (tagged_world p d) False [])"])
    apply (rule exI[of _ "fst (updateDependencies (tagged_world p d) merge_config [])"])
    apply (intro conjI answers)
           apply (simp_all add: phases merge_step_trace_def version_step_trace_def)
    done
qed

theorem merge_conflict_resolution_witness:
  "mergeTargetIntoCurrent manifest_conflict_world ''main'' [] =
     ([Call merge_command, Call (Run ''git diff --name-only --diff-filter=U''),
       Call (Run ''git checkout --ours package.json''), Call (Run ''git add package.json''),
       Call (Run (''git commit --no-edit -m '' @ dq
          @ ''Merge main to sync before version bump (auto-resolved version conflicts)'' @ dq))],
      Inr True)
   \<and> execute (tagged_world False False) merge_config [] =
     (merge_step_trace
        @ [Call merge_command, Call (Run ''git diff --name-only --diff-filter=U''),
           LockRelease ''merge main into current branch''],
      Inl (new_Error ''Merge conflicts in non-version files. Please resolve manually.''))"
proof
  define out where "out = ''package.json'' @ [newline]"
  have failed: "w_text manifest_conflict_world []
      (Run (''git merge '' @ ''main'' @ '' --no-edit -m '' @ dq @ ''Merge '' @ ''main''
              @ '' to sync before version bump'' @ dq))
      = Inl (Error ''Command failed: git merge main''
               ''CONFLICT (content): Merge conflict in package.json'' [])"
    by (simp add: manifest_conflict_world_def quiet_world_def)
  have conflict: "str_includes (errorText (Error ''Command failed: git merge main''
               ''CONFLICT (content): Merge conflict in package.json'' [])) ''CONFLICT''"
    by (simp add: errorText_def)
  have listed: "\<And>h. w_text manifest_conflict_world h (Run ''git diff --name-only --diff-filter=U'')
      = Inr out"
    by (simp add: manifest_conflict_world_def quiet_world_def dq_def out_def)
  have files: "conflicts_of out = [''package.json'']"
    by (simp add: string_defs out_def)
  have answers: "\<And>h c. c \<in> set (resolution_commands [''package.json''] ''main'')
      \<Longrightarrow> w_text manifest_conflict_world h (Run c) = Inr []"
    by (auto simp add: resolution_commands_def manifest_conflict_world_def quiet_world_def dq_def)
  show "mergeTargetIntoCurrent manifest_conflict_world ''main'' [] =
     ([Call merge_command, Call (Run ''git diff --name-only --diff-filter=U''),
       Call (Run ''git checkout --ours package.json''), Call (Run ''git add package.json''),
       Call (Run (''git commit --no-edit -m '' @ dq
          @ ''Merge main to sync before version bump (auto-resolved version conflicts)'' @ dq))],
      Inr True)"
    using merge_conflict_resolution[OF failed conflict listed] answers
    by (simp add: files resolution_commands_def merge_command_def io_seq_def io_bind_def
        io_return_def run_def ask_def)
next
  let ?w = "tagged_world False False"
  define out where "out = ''package.json'' @ [newline] @ ''src/index.ts'' @ [newline]"
  have failed: "w_text ?w ([] @ merge_step_trace)
      (Run (''git merge '' @ ''main'' @ '' --no-edit -m '' @ dq @ ''Merge '' @ ''main''
              @ '' to sync before version bump'' @ dq))
      = Inl (Error ''Command failed: git merge main''
               ''CONFLICT (content): Merge conflict in package.json'' [])"
    by (simp add: world_defs dq_def)
  have conflict: "str_includes (errorText (Error ''Command failed: git merge main''
               ''CONFLICT (content): Merge conflict in package.json'' [])) ''CONFLICT''"
    by (simp add: errorText_def)
  have listed: "\<And>h. w_text ?w h (Run ''git diff --name-only --diff-filter=U'') = Inr out"
    by (simp add: world_defs dq_def out_def)
  have files: "conflicts_of out = [''package.json'', ''src/index.ts'']"
    by (simp add: string_defs out_def)
  show "execute ?w merge_config [] =
     (merge_step_trace
        @ [Call merge_command, Call (Run ''git diff --name-only --diff-filter=U''),
           LockRelease ''merge main into current branch''],
      Inl (new_Error ''Merge conflicts in non-version files. Please resolve manually.''))"
    using merge_conflict_resolution[OF failed conflict listed, of merge_config "[]" merge_step_trace "''working''" False]
      tagged_world_reaches_merge_step[of False False]
    by (simp add: files merge_command_def)
qed

subsection \<open>The source branch after the merge\<close>

text \<open>
  Claim C8, as the code behaves. With the squash strategy the source branch is reset
  hard to the target branch; then the remote source branch is fetched, the ancestry check
  \<open>git merge-base --is-ancestor\<close> is run if the fetch succeeded, and
  \<open>git push --force-with-lease\<close> is run. The answer of the ancestry check does not
  appear in the outcome: the forced push is issued whether the check passes or fails, and
  the step never fails once the reset has succeeded. With any other strategy the target
  is merged with \<open>--ff-only\<close>, and when that fails with a regular merge.
\<close>

theorem post_publish_sync_commands:
  fixes w :: world and cb tb :: string and h :: "event list"
  defines "reset \<equiv> Run (''git reset --hard '' @ tb)"
  defines "fetch \<equiv> Run (''git fetch origin '' @ cb)"
  defines "is_ancestor \<equiv> Run (''git merge-base --is-ancestor origin/'' @ cb @ '' '' @ tb)"
  defines "force_push \<equiv> Run (''git push --force-with-lease origin '' @ cb)"
  defines "fast_forward \<equiv> RunSecure ''git'' [''merge'', tb, ''--ff-only'']"
  defines "regular_merge \<equiv> Run (''git merge '' @ tb @ '' --no-edit'')"
  shows "syncSourceWithTarget w ''squash'' cb tb h =
           (case w_text w h reset of
              Inl e \<Rightarrow> ([Call reset], Inl e)
            | Inr out \<Rightarrow>
                ([Call reset, Call fetch]
                 @ (case w_text w (h @ [Call reset]) fetch of
                      Inl e \<Rightarrow> []
                    | Inr fetched \<Rightarrow> [Call is_ancestor])
                 @ [Call force_push], Inr ()))
       \<and> (mergeMethod \<noteq> ''squash'' \<longrightarrow>
            syncSourceWithTarget w mergeMethod cb tb h =
              (case w_text w h fast_forward of
                 Inr out \<Rightarrow> ([Call fast_forward], Inr ())
               | Inl e \<Rightarrow>
                   ([Call fast_forward, Call regular_merge],
                    case w_text w (h @ [Call fast_forward]) regular_merge of
                      Inl e' \<Rightarrow> Inl e'
                    | Inr merged \<Rightarrow> Inr ())))"
  unfolding assms
  by (simp add: syncSourceWithTarget_def forcePushAfterSquash_def io_defs
      split: sum.splits prod.splits)

theorem post_publish_sync_commands_witness:
  "syncSourceWithTarget diverged_world ''squash'' ''working'' ''main'' [] =
     ([Call (Run ''git reset --hard main''), Call (Run ''git fetch origin working''),
       Call (Run ''git merge-base --is-ancestor origin/working main''),
       Call (Run ''git push --force-with-lease origin working'')], Inr ())
   \<and> w_text diverged_world
        [Call (Run ''git reset --hard main''), Call (Run ''git fetch origin working'')]
        (Run ''git merge-base --is-ancestor origin/working main'')
      = Inl (Error ''Command failed: git merge-base --is-ancestor origin/working main'' [] [])
   \<and> syncSourceWithTarget diverged_world ''merge'' ''working'' ''main'' [] =
     ([Call (RunSecure ''git'' [''merge'', ''main'', ''--ff-only'']),
       Call (Run ''git merge main --no-edit'')], Inr ())"
  using post_publish_sync_commands[of diverged_world "''working''" "''main''" "[]" "''merge''"]
  by (simp add: diverged_world_def quiet_world_def)

subsection \<open>Dry runs\<close>






































subsection \<open>The early exit of the development command\<close>

lemma prepared_already_on_branch:
  assumes "prepareWorkingBranch w cfg cb h = (t, Inr (merged, AlreadyOnBranch))"
  shows "cb = workingBranchOf w cfg \<and> cb \<noteq> ''development'' \<and> \<not> merged"
  using assms
  unfolding prepareWorkingBranch_def mergeFromDevelopmentBranch_def switchToWorkingBranch_def Let_def
  by (auto simp add: io_bind_def io_seq_def io_return_def ask_def
      split: if_splits prod.splits sum.splits)

text \<open>
  Claim C10, as the code has it. Let the steps before the check for a development
  version complete with the flag \<open>alreadyOnBranch\<close> set, and let the version of the
  manifest hold the prerelease tag between \<open>-\<close> and \<open>.\<close>. Then the run was started on
  the working branch, which is not \<open>development\<close>, no merge of the special case for
  \<open>development\<close> took place, and after those steps \<open>execute\<close> only reads the manifest
  and returns \<open>Already on working branch with development version\<close>: it writes no
  version and makes no commit of its own. The steps before the check are not constrained;
  they may merge and commit.
\<close>

theorem development_early_exit:
  fixes w :: world and cfg :: config and h :: "event list"
  assumes current: "(if dryRun cfg then io_return ''mock-branch'' else ask (w_text w) GetCurrentBranch) h
                      = (t0, Inr cb)"
    and strategy: "versionStrategy w cfg = Inr (prereleaseTag, incrementLevel)"
    and prepared: "prepareWorkingBranch w cfg cb (h @ t0) = (t1, Inr (merged, AlreadyOnBranch))"
    and manifest: "w_text w (h @ t0 @ t1) (FsReadFile ''package.json'') = Inr contents"
    and parsed: "JSON_parse w contents = Inr packageJson"
    and version: "property packageJson ''version'' = Inr (Some (JStr currentVersion))"
    and tagged: "str_includes currentVersion (''-'' @ prereleaseTag @ ''.'')"
  shows "development_execute w cfg h =
           (t0 @ t1 @ [Call (FsReadFile ''package.json'')],
            Inr ''Already on working branch with development version'')
       \<and> cb = workingBranchOf w cfg \<and> cb \<noteq> ''development'' \<and> \<not> merged"
proof -
  note flags = prepared_already_on_branch[OF prepared]
  have "development_execute w cfg h =
           (t0 @ t1 @ [Call (FsReadFile ''package.json'')],
            Inr ''Already on working branch with development version'')"
    using current strategy prepared manifest parsed version tagged flags
    by (simp add: development_execute_def finishDevelopment_def alreadyDevelopmentVersion_def
        io_bind_def io_seq_def io_return_def io_catch_def ask_def lift_def)
  then show ?thesis
    using flags by blast
qed


lemmas dev_defs = dev_world_def quiet_world_def quiet_config_def

lemma dev_world_prepared:
  "prepareWorkingBranch (dev_world d) quiet_config ''working'' h
     = (dev_sync_trace d, Inr (False, AlreadyOnBranch))"
  by (simp add: prepareWorkingBranch_def mergeFromDevelopmentBranch_def switchToWorkingBranch_def
      syncWorkingWithRemote_def syncWorkingWithTarget_def mergeLatestDevelopment_def
      installAndCommit_def workingBranchOf_def workingBranchConfig_def allBranchConfig_def
      message_includes_def dev_sync_trace_def
      io_defs dev_defs string_defs Let_def)

lemma dev_world_facts:
  "(if dryRun quiet_config then io_return ''mock-branch''
    else ask (w_text (dev_world d)) GetCurrentBranch) h = ([Call GetCurrentBranch], Inr ''working'')"
  "versionStrategy (dev_world d) quiet_config = Inr (''dev'', ''patch'')"
  "w_text (dev_world d) h (FsReadFile ''package.json'') = Inr ''DEV''"
  "JSON_parse (dev_world d) ''DEV'' = Inr (JObj [(''version'', JStr ''1.0.1-dev.0'')])"
  "property (JObj [(''version'', JStr ''1.0.1-dev.0'')]) ''version'' = Inr (Some (JStr ''1.0.1-dev.0''))"
  "str_includes ''1.0.1-dev.0'' (''-'' @ ''dev'' @ ''.'')"
  by (simp_all add: versionStrategy_def workingBranchConfig_def allBranchConfig_def
      workingBranchOf_def get_member_def io_defs dev_defs)

theorem development_early_exit_witness:
  "development_execute (dev_world False) quiet_config [] =
     ([Call GetCurrentBranch] @ dev_sync_trace False @ [Call (FsReadFile ''package.json'')],
      Inr ''Already on working branch with development version'')"
  using development_early_exit[OF dev_world_facts(1)[of False "[]"] dev_world_facts(2) dev_world_prepared
      dev_world_facts(3,4,5,6)]
  by simp

text \<open>
  A run on the working branch with a development version merges \<open>main\<close>, which cannot be
  fast-forwarded, and commits the dependencies updated by the merge before it returns the
  message.
\<close>

theorem development_early_exit_after_commit:
  "development_execute (dev_world True) quiet_config [] =
     ([Call GetCurrentBranch] @ dev_sync_trace True @ [Call (FsReadFile ''package.json'')],
      Inr ''Already on working branch with development version'')
   \<and> Call (Run (''git merge main -m '' @ dq @ ''Merge main into working for sync'' @ dq))
       \<in> set (dev_sync_trace True)
   \<and> Call (Run (''git commit -m '' @ dq @ ''chore: update dependencies after merge'' @ dq))
       \<in> set (dev_sync_trace True)"
proof (intro conjI)
  show "development_execute (dev_world True) quiet_config [] =
     ([Call GetCurrentBranch] @ dev_sync_trace True @ [Call (FsReadFile ''package.json'')],
      Inr ''Already on working branch with development version'')"
    using dev_world_facts(1-4)[of True] dev_world_facts(5,6)
    by (simp add: development_execute_def finishDevelopment_def alreadyDevelopmentVersion_def
        dev_world_prepared io_bind_def io_seq_def io_return_def io_catch_def ask_def lift_def)
qed (simp_all add: dev_sync_trace_def)

end
